theory Spec2Isabelle
  imports Main
begin

section \<open>Text\<close>

text \<open>
  A Python \<^verbatim>\<open>str\<close> is a sequence of Unicode code points. The student id is the one text
  whose characters the schemas inspect, so it is modelled as the list of its code points;
  the other texts are only measured and compared. \<open>str\<close> gives the code points of a
  literal.
\<close>

type_synonym py_str = "nat list"

definition str :: "string \<Rightarrow> py_str" where
  "str s = map of_char s"

section \<open>Persistence model (app/models.py)\<close>

text \<open>
  The three mapped classes of \<^verbatim>\<open>app/models.py\<close>, one record per table row. Field
  names carry a prefix because record selectors are global. \<^verbatim>\<open>ProjectDB.description\<close>
  is the only nullable column.
\<close>

record UserDB =
  u_id :: int
  u_name :: string
  u_email :: string
  u_age :: int
  u_student_id :: py_str

record ProjectDB =
  p_id :: int
  p_name :: string
  p_description :: "string option"
  p_owner_id :: int

record CourseDB =
  c_id :: int
  c_code :: string
  c_name :: string
  c_credits :: int

text \<open>
  The committed content of the relational store: one list of rows per table, in
  insertion order.
\<close>

record db =
  users :: "UserDB list"
  projects :: "ProjectDB list"
  courses :: "CourseDB list"

text \<open>
  What a handler can end with besides its return value. \<open>HTTPException\<close> is the
  exception the handlers raise themselves; \<open>RequestValidationError\<close> is the 422 the
  framework answers when a parameter or a body fails its schema; \<open>InvalidRequestError\<close>
  is the ORM's exception for \<^verbatim>\<open>Session.refresh\<close> on an instance that is not persistent,
  which no handler catches (the client sees a 500).
\<close>

datatype error =
  HTTPException int string
  | RequestValidationError
  | InvalidRequestError

section \<open>Datastore operations used by the handlers\<close>

text \<open>
  Modelled from the spec: \<^verbatim>\<open>app/database.py\<close> (the engine and \<^verbatim>\<open>get_db\<close>) is not
  among the sources, so the store is modelled from the constraints that
  \<^verbatim>\<open>app/models.py\<close> declares and the spec's data model: primary keys are generated
  (here: one more than the largest key of the table, 1 for an empty table), the
  \<^verbatim>\<open>unique=True\<close> columns and the foreign key \<^verbatim>\<open>projects.owner_id\<close> are
  enforced at commit (a violation is the \<open>IntegrityError\<close>, modelled as \<open>None\<close>), and a
  failed commit leaves the committed content as it was.
\<close>

definition next_id :: "int list \<Rightarrow> int" where
  "next_id ids = (if ids = [] then 1 else Max (set ids) + 1)"

text \<open>\<^verbatim>\<open>db.get(UserDB, id)\<close>, \<^verbatim>\<open>db.get(ProjectDB, id)\<close>: the row with that primary key.\<close>

definition get_UserDB :: "db \<Rightarrow> int \<Rightarrow> UserDB option" where
  "get_UserDB d i = find (\<lambda>u. u_id u = i) (users d)"

definition get_ProjectDB :: "db \<Rightarrow> int \<Rightarrow> ProjectDB option" where
  "get_ProjectDB d i = find (\<lambda>p. p_id p = i) (projects d)"

text \<open>
  The two unique columns of \<^verbatim>\<open>users\<close>: no other row (another primary key) has the
  same email or the same student id.
\<close>

definition users_unique_ok :: "db \<Rightarrow> UserDB \<Rightarrow> bool" where
  "users_unique_ok d u =
     list_all (\<lambda>v. u_id v = u_id u \<or>
                 (u_email v \<noteq> u_email u \<and> u_student_id v \<noteq> u_student_id u)) (users d)"

definition courses_unique_ok :: "db \<Rightarrow> CourseDB \<Rightarrow> bool" where
  "courses_unique_ok d c =
     list_all (\<lambda>v. c_id v = c_id c \<or> c_code v \<noteq> c_code c) (courses d)"

definition projects_fk_ok :: "db \<Rightarrow> ProjectDB \<Rightarrow> bool" where
  "projects_fk_ok d p = (get_UserDB d (p_owner_id p) \<noteq> None)"

text \<open>
  \<^verbatim>\<open>db.add(row); db.commit()\<close> for each table: the row gets its generated key, the
  constraints are checked, and the result is the persistent row with the new content,
  or \<open>None\<close> for the \<open>IntegrityError\<close>.
\<close>

definition insert_user :: "UserDB \<Rightarrow> db \<Rightarrow> (UserDB \<times> db) option" where
  "insert_user u d =
     (let row = u\<lparr>u_id := next_id (map u_id (users d))\<rparr>
      in if users_unique_ok d row then Some (row, d\<lparr>users := users d @ [row]\<rparr>) else None)"

definition insert_course :: "CourseDB \<Rightarrow> db \<Rightarrow> (CourseDB \<times> db) option" where
  "insert_course c d =
     (let row = c\<lparr>c_id := next_id (map c_id (courses d))\<rparr>
      in if courses_unique_ok d row then Some (row, d\<lparr>courses := courses d @ [row]\<rparr>) else None)"

definition insert_project :: "ProjectDB \<Rightarrow> db \<Rightarrow> (ProjectDB \<times> db) option" where
  "insert_project p d =
     (let row = p\<lparr>p_id := next_id (map p_id (projects d))\<rparr>
      in if projects_fk_ok d row then Some (row, d\<lparr>projects := projects d @ [row]\<rparr>) else None)"

text \<open>
  \<^verbatim>\<open>db.commit()\<close> after the attributes of a loaded row were set: the row replaces the one
  with its primary key, under the same constraints.
\<close>

definition update_user_row :: "UserDB \<Rightarrow> db \<Rightarrow> (UserDB \<times> db) option" where
  "update_user_row u d =
     (if users_unique_ok d u
      then Some (u, d\<lparr>users := map (\<lambda>v. if u_id v = u_id u then u else v) (users d)\<rparr>)
      else None)"

definition update_project_row :: "ProjectDB \<Rightarrow> db \<Rightarrow> (ProjectDB \<times> db) option" where
  "update_project_row p d =
     (if projects_fk_ok d p
      then Some (p, d\<lparr>projects := map (\<lambda>q. if p_id q = p_id p then p else q) (projects d)\<rparr>)
      else None)"

text \<open>
  \<^verbatim>\<open>db.refresh(obj)\<close>: reloads a persistent row; an instance that the rollback expunged
  from the session is not persistent, and the ORM raises.
\<close>

definition refresh :: "'r option \<Rightarrow> error + 'r" where
  "refresh obj = (case obj of None \<Rightarrow> Inl InvalidRequestError | Some row \<Rightarrow> Inr row)"

section \<open>Schemas (app/schemas.py)\<close>

text \<open>
  A key of a request body: absent, present with \<^verbatim>\<open>null\<close>, or present with a value.
  \<^verbatim>\<open>model_dump(exclude_unset=True)\<close> keeps the keys that are not \<open>Unset\<close>.
\<close>

datatype 'a field = Unset | Null | Val 'a

subsection \<open>The pattern of \<^verbatim>\<open>StudentID\<close>\<close>

text \<open>
  \<^verbatim>\<open>StringConstraints(pattern=r'^S\d{7}$')\<close>. The pattern is a sequence of atoms, each
  with a repetition count; the validator searches the string for a match (the anchors
  make the search a full match; for the validator's default engine \<^verbatim>\<open>$\<close> is the end of
  the text, not the place before a final newline). The class \<^verbatim>\<open>\d\<close> of that engine is
  Unicode-aware: it matches every decimal digit of the Unicode standard (general
  category Nd), of which the digits \<^verbatim>\<open>0\<close> to \<^verbatim>\<open>9\<close> are the first ten.
\<close>

text \<open>
  The decimal digits of Unicode come in runs of ten consecutive code points, zero to
  nine. The table gives the first code point of every run (Unicode 15.0); it is the
  standard's table, not a part of the repository.
\<close>

definition decimal_digit_runs :: "nat list" where
  "decimal_digit_runs =
     [0x30, 0x660, 0x6F0, 0x7C0, 0x966, 0x9E6, 0xA66, 0xAE6, 0xB66, 0xBE6, 0xC66, 0xCE6,
      0xD66, 0xDE6, 0xE50, 0xED0, 0xF20, 0x1040, 0x1090, 0x17E0, 0x1810, 0x1946, 0x19D0,
      0x1A80, 0x1A90, 0x1B50, 0x1BB0, 0x1C40, 0x1C50, 0xA620, 0xA8D0, 0xA900, 0xA9D0,
      0xA9F0, 0xAA50, 0xABF0, 0xFF10, 0x104A0, 0x10D30, 0x11066, 0x110F0, 0x11136,
      0x111D0, 0x112F0, 0x11450, 0x114D0, 0x11650, 0x116C0, 0x11730, 0x118E0, 0x11950,
      0x11C50, 0x11D50, 0x11DA0, 0x11F50, 0x16A60, 0x16AC0, 0x16B50, 0x1D7CE, 0x1D7D8,
      0x1D7E2, 0x1D7EC, 0x1D7F6, 0x1E140, 0x1E2F0, 0x1E4F0, 0x1E950, 0x1FBF0]"

definition is_decimal_digit :: "nat \<Rightarrow> bool" where
  "is_decimal_digit c = list_ex (\<lambda>b. b \<le> c \<and> c < b + 10) decimal_digit_runs"

datatype regex_atom = Start_anchor | End_anchor | Literal nat | Digit_class

type_synonym pattern = "(regex_atom \<times> nat) list"

text \<open>One atom at position \<open>pos\<close> of the text, \<open>s\<close> being the text from there on.\<close>

fun atom_match :: "regex_atom \<Rightarrow> nat \<Rightarrow> py_str \<Rightarrow> (nat \<times> py_str) option" where
  "atom_match Start_anchor pos s = (if pos = 0 then Some (pos, s) else None)"
| "atom_match End_anchor pos s = (if s = [] then Some (pos, s) else None)"
| "atom_match (Literal c) pos [] = None"
| "atom_match (Literal c) pos (x # xs) = (if x = c then Some (Suc pos, xs) else None)"
| "atom_match Digit_class pos [] = None"
| "atom_match Digit_class pos (x # xs) =
     (if is_decimal_digit x then Some (Suc pos, xs) else None)"

fun rep_match :: "regex_atom \<Rightarrow> nat \<Rightarrow> nat \<Rightarrow> py_str \<Rightarrow> (nat \<times> py_str) option" where
  "rep_match a 0 pos s = Some (pos, s)"
| "rep_match a (Suc n) pos s =
     (case atom_match a pos s of None \<Rightarrow> None | Some (pos', s') \<Rightarrow> rep_match a n pos' s')"

fun seq_match :: "pattern \<Rightarrow> nat \<Rightarrow> py_str \<Rightarrow> bool" where
  "seq_match [] pos s = True"
| "seq_match ((a, n) # items) pos s =
     (case rep_match a n pos s of None \<Rightarrow> False | Some (pos', s') \<Rightarrow> seq_match items pos' s')"

definition is_match :: "pattern \<Rightarrow> py_str \<Rightarrow> bool" where
  "is_match pat s = list_ex (\<lambda>i. seq_match pat i (drop i s)) [0..<Suc (length s)]"

definition StudentID_pattern :: pattern where
  "StudentID_pattern =
     [(Start_anchor, 1), (Literal (of_char (CHR ''S'')), 1), (Digit_class, 7), (End_anchor, 1)]"

subsection \<open>Reusable type aliases\<close>

definition NameStr :: "string \<Rightarrow> bool" where
  "NameStr s = (2 \<le> length s \<and> length s \<le> 50)"

definition StudentID :: "py_str \<Rightarrow> bool" where
  "StudentID s = is_match StudentID_pattern s"

definition CodeStr :: "string \<Rightarrow> bool" where
  "CodeStr s = (1 \<le> length s \<and> length s \<le> 32)"

definition CourseNameStr :: "string \<Rightarrow> bool" where
  "CourseNameStr s = (1 \<le> length s \<and> length s \<le> 255)"

definition ProjectNameStr :: "string \<Rightarrow> bool" where
  "ProjectNameStr s = (1 \<le> length s \<and> length s \<le> 255)"

definition DescStr :: "string \<Rightarrow> bool" where
  "DescStr s = (0 \<le> length s \<and> length s \<le> 2000)"

definition AgeInt :: "int \<Rightarrow> bool" where
  "AgeInt a = (18 \<le> a \<and> a \<le> 150)"

definition CreditsInt :: "int \<Rightarrow> bool" where
  "CreditsInt c = (1 \<le> c \<and> c \<le> 120)"

text \<open>
  \<open>Optional[T] = None\<close>: the key may be absent or \<^verbatim>\<open>null\<close>; a value must satisfy \<open>T\<close>.
\<close>

definition optional_ok :: "('a \<Rightarrow> bool) \<Rightarrow> 'a field \<Rightarrow> bool" where
  "optional_ok ok f = (case f of Unset \<Rightarrow> True | Null \<Rightarrow> True | Val v \<Rightarrow> ok v)"

text \<open>The attribute of the validated model for such a key: \<open>None\<close> unless a value was sent.\<close>

definition optional_value :: "'a field \<Rightarrow> 'a option" where
  "optional_value f = (case f of Unset \<Rightarrow> None | Null \<Rightarrow> None | Val v \<Rightarrow> Some v)"

subsection \<open>Users\<close>

text \<open>
  \<^verbatim>\<open>UserCreate\<close>: the body as sent, and the validated model. Every key is required.
  \<^verbatim>\<open>EmailStr\<close> belongs to a library; it is the parameter \<open>EmailStr\<close>, which gives the
  normalised address or \<open>None\<close> for an invalid one. \<^verbatim>\<open>age: int = Field(gt=18)\<close>.
\<close>

record UserCreate_body =
  ucb_student_id :: "py_str field"
  ucb_name :: "string field"
  ucb_email :: "string field"
  ucb_age :: "int field"

record UserCreate =
  uc_student_id :: py_str
  uc_name :: string
  uc_email :: string
  uc_age :: int

definition UserCreate_validate ::
  "(string \<Rightarrow> string option) \<Rightarrow> UserCreate_body \<Rightarrow> UserCreate option" where
  "UserCreate_validate EmailStr b =
     (case (ucb_student_id b, ucb_name b, ucb_email b, ucb_age b) of
        (Val s, Val n, Val e, Val a) \<Rightarrow>
          (case EmailStr e of
             None \<Rightarrow> None
           | Some e' \<Rightarrow>
               if StudentID s \<and> NameStr n \<and> a > 18
               then Some \<lparr>uc_student_id = s, uc_name = n, uc_email = e', uc_age = a\<rparr>
               else None)
      | _ \<Rightarrow> None)"

text \<open>\<^verbatim>\<open>UserUpdate\<close>: every key optional; the age is an \<^verbatim>\<open>AgeInt\<close>.\<close>

record UserUpdate =
  uu_student_id :: "py_str field"
  uu_name :: "string field"
  uu_email :: "string field"
  uu_age :: "int field"

text \<open>The email key of a valid body, with the address normalised.\<close>

definition normalised_email :: "(string \<Rightarrow> string option) \<Rightarrow> string field \<Rightarrow> string field" where
  "normalised_email EmailStr f =
     (case f of
        Val e \<Rightarrow> (case EmailStr e of Some e' \<Rightarrow> Val e' | None \<Rightarrow> Val e)
      | _ \<Rightarrow> f)"

definition UserUpdate_validate ::
  "(string \<Rightarrow> string option) \<Rightarrow> UserUpdate \<Rightarrow> UserUpdate option" where
  "UserUpdate_validate EmailStr b =
     (if optional_ok StudentID (uu_student_id b) \<and> optional_ok NameStr (uu_name b)
         \<and> optional_ok (\<lambda>e. EmailStr e \<noteq> None) (uu_email b)
         \<and> optional_ok AgeInt (uu_age b)
      then Some (b\<lparr>uu_email := normalised_email EmailStr (uu_email b)\<rparr>)
      else None)"

subsection \<open>Projects\<close>

record ProjectCreate_body =
  pcb_name :: "string field"
  pcb_description :: "string field"
  pcb_owner_id :: "int field"

record ProjectCreate =
  pc_name :: string
  pc_description :: "string option"
  pc_owner_id :: int

definition ProjectCreate_validate :: "ProjectCreate_body \<Rightarrow> ProjectCreate option" where
  "ProjectCreate_validate b =
     (case (pcb_name b, pcb_owner_id b) of
        (Val n, Val owner) \<Rightarrow>
          if ProjectNameStr n \<and> optional_ok DescStr (pcb_description b)
          then Some \<lparr>pc_name = n, pc_description = optional_value (pcb_description b),
                     pc_owner_id = owner\<rparr>
          else None
      | _ \<Rightarrow> None)"

text \<open>\<^verbatim>\<open>ProjectCreateForUser\<close>: the nested route's body, without \<^verbatim>\<open>owner_id\<close>.\<close>

record ProjectCreateForUser_body =
  pfb_name :: "string field"
  pfb_description :: "string field"

record ProjectCreateForUser =
  pf_name :: string
  pf_description :: "string option"

definition ProjectCreateForUser_validate ::
  "ProjectCreateForUser_body \<Rightarrow> ProjectCreateForUser option" where
  "ProjectCreateForUser_validate b =
     (case pfb_name b of
        Val n \<Rightarrow>
          if ProjectNameStr n \<and> optional_ok DescStr (pfb_description b)
          then Some \<lparr>pf_name = n, pf_description = optional_value (pfb_description b)\<rparr>
          else None
      | _ \<Rightarrow> None)"

record ProjectUpdate =
  pu_name :: "string field"
  pu_description :: "string field"

definition ProjectUpdate_validate :: "ProjectUpdate \<Rightarrow> ProjectUpdate option" where
  "ProjectUpdate_validate b =
     (if optional_ok ProjectNameStr (pu_name b) \<and> optional_ok DescStr (pu_description b)
      then Some b else None)"

subsection \<open>Courses\<close>

record CourseCreate_body =
  ccb_code :: "string field"
  ccb_name :: "string field"
  ccb_credits :: "int field"

record CourseCreate =
  cc_code :: string
  cc_name :: string
  cc_credits :: int

definition CourseCreate_validate :: "CourseCreate_body \<Rightarrow> CourseCreate option" where
  "CourseCreate_validate b =
     (case (ccb_code b, ccb_name b, ccb_credits b) of
        (Val c, Val n, Val k) \<Rightarrow>
          if CodeStr c \<and> CourseNameStr n \<and> CreditsInt k
          then Some \<lparr>cc_code = c, cc_name = n, cc_credits = k\<rparr>
          else None
      | _ \<Rightarrow> None)"

section \<open>Handlers (app/main.py)\<close>

text \<open>
  A handler takes its arguments and the committed content of the store, and gives the
  response (a value or an error) with the content after the request. The primary key of
  a new object is not set before the commit; the rows below are built with the
  placeholder 0, which the insertion replaces by the generated key.
\<close>

text \<open>
  \<^verbatim>\<open>commit_or_rollback\<close>: \<open>committed\<close> is the outcome of the commit of the pending row.
  On the \<open>IntegrityError\<close> the session is rolled back and an \<open>HTTPException\<close> 409 is
  constructed; the source has no \<^verbatim>\<open>raise\<close> before it, so the function returns
  normally in both cases. What the caller holds afterwards is the persistent row, or an
  object that is no longer in the session (\<open>None\<close>).
\<close>

definition commit_or_rollback :: "('r \<times> db) option \<Rightarrow> db \<Rightarrow> string \<Rightarrow> 'r option \<times> db" where
  "commit_or_rollback committed d error_msg =
     (case committed of
        Some (row, d') \<Rightarrow> (Some row, d')
      | None \<Rightarrow> (let unraised = HTTPException 409 error_msg in (None, d)))"

subsection \<open>Courses\<close>

definition create_course :: "CourseCreate \<Rightarrow> db \<Rightarrow> (error + CourseDB) \<times> db" where
  "create_course course d =
     (let db_course = \<lparr>c_id = 0, c_code = cc_code course, c_name = cc_name course,
                       c_credits = cc_credits course\<rparr>;
          (obj, d') = commit_or_rollback (insert_course db_course d) d ''Course already exists''
      in (refresh obj, d'))"

text \<open>
  \<^verbatim>\<open>select(CourseDB).order_by(CourseDB.id).limit(limit).offset(offset)\<close>. For a negative
  \<open>limit\<close> or \<open>offset\<close> the result depends on the engine; the model follows SQLite (a
  negative limit is no limit, a negative offset is 0).
\<close>

definition sql_offset :: "int \<Rightarrow> 'a list \<Rightarrow> 'a list" where
  "sql_offset offset rows = drop (nat offset) rows"

definition sql_limit :: "int \<Rightarrow> 'a list \<Rightarrow> 'a list" where
  "sql_limit limit rows = (if limit < 0 then rows else take (nat limit) rows)"

definition list_courses :: "int \<Rightarrow> int \<Rightarrow> db \<Rightarrow> CourseDB list" where
  "list_courses limit offset d = sql_limit limit (sql_offset offset (sort_key c_id (courses d)))"

subsection \<open>Projects\<close>

definition create_project :: "ProjectCreate \<Rightarrow> db \<Rightarrow> (error + ProjectDB) \<times> db" where
  "create_project project d =
     (case get_UserDB d (pc_owner_id project) of
        None \<Rightarrow> (Inl (HTTPException 404 ''User not found''), d)
      | Some user \<Rightarrow>
          (let proj = \<lparr>p_id = 0, p_name = pc_name project,
                        p_description = pc_description project,
                        p_owner_id = pc_owner_id project\<rparr>;
               (obj, d') = commit_or_rollback (insert_project proj d) d ''Project creation failed''
           in (refresh obj, d')))"

definition list_projects :: "db \<Rightarrow> ProjectDB list" where
  "list_projects d = sort_key p_id (projects d)"

text \<open>
  \<^verbatim>\<open>update_project\<close> (PUT): every key of \<^verbatim>\<open>payload.model_dump()\<close>, that is \<^verbatim>\<open>name\<close>,
  \<^verbatim>\<open>description\<close> and \<^verbatim>\<open>owner_id\<close>, is set on the loaded row.
\<close>

definition update_project :: "int \<Rightarrow> ProjectCreate \<Rightarrow> db \<Rightarrow> (error + ProjectDB) \<times> db" where
  "update_project project_id payload d =
     (case get_ProjectDB d project_id of
        None \<Rightarrow> (Inl (HTTPException 404 ''Project not found''), d)
      | Some proj \<Rightarrow>
          (case update_project_row
                  (proj\<lparr>p_name := pc_name payload, p_description := pc_description payload,
                        p_owner_id := pc_owner_id payload\<rparr>) d of
             Some (row, d') \<Rightarrow> (Inr row, d')
           | None \<Rightarrow> (Inl (HTTPException 400 ''Project already exists''), d)))"

text \<open>
  \<^verbatim>\<open>setattr\<close> over \<^verbatim>\<open>model_dump(exclude_unset=True)\<close>: an absent key leaves the attribute,
  a present one overwrites it. A \<^verbatim>\<open>null\<close> written to a column that is not nullable
  fails at the commit (\<open>None\<close>, the \<open>IntegrityError\<close>).
\<close>

definition setattr_required :: "'a field \<Rightarrow> 'a \<Rightarrow> 'a option" where
  "setattr_required f cur = (case f of Unset \<Rightarrow> Some cur | Null \<Rightarrow> None | Val v \<Rightarrow> Some v)"

definition setattr_nullable :: "'a field \<Rightarrow> 'a option \<Rightarrow> 'a option" where
  "setattr_nullable f cur = (case f of Unset \<Rightarrow> cur | Null \<Rightarrow> None | Val v \<Rightarrow> Some v)"

definition patch_project :: "int \<Rightarrow> ProjectUpdate \<Rightarrow> db \<Rightarrow> (error + ProjectDB) \<times> db" where
  "patch_project project_id payload d =
     (case get_ProjectDB d project_id of
        None \<Rightarrow> (Inl (HTTPException 404 ''Project not found''), d)
      | Some proj \<Rightarrow>
          (case (case setattr_required (pu_name payload) (p_name proj) of
                   None \<Rightarrow> None
                 | Some n \<Rightarrow>
                     update_project_row
                       (proj\<lparr>p_name := n,
                             p_description :=
                               setattr_nullable (pu_description payload) (p_description proj)\<rparr>) d) of
             Some (row, d') \<Rightarrow> (Inr row, d')
           | None \<Rightarrow> (Inl (HTTPException 400 ''Project already exists''), d)))"

subsection \<open>Nested routes\<close>

text \<open>\<^verbatim>\<open>select(ProjectDB).where(ProjectDB.owner_id == users_id)\<close>, with no check of the user.\<close>

definition get_user_projects :: "int \<Rightarrow> db \<Rightarrow> ProjectDB list" where
  "get_user_projects users_id d = filter (\<lambda>p. p_owner_id p = users_id) (projects d)"

definition create_user_project ::
  "int \<Rightarrow> ProjectCreateForUser \<Rightarrow> db \<Rightarrow> (error + ProjectDB) \<times> db" where
  "create_user_project users_id project d =
     (case get_UserDB d users_id of
        None \<Rightarrow> (Inl (HTTPException 404 ''User not found''), d)
      | Some user \<Rightarrow>
          (let proj = \<lparr>p_id = 0, p_name = pf_name project,
                        p_description = pf_description project, p_owner_id = users_id\<rparr>;
               (obj, d') = commit_or_rollback (insert_project proj d) d ''Project creation failed''
           in (refresh obj, d')))"

subsection \<open>Users\<close>

definition get_user :: "int \<Rightarrow> db \<Rightarrow> error + UserDB" where
  "get_user users_id d =
     (case get_UserDB d users_id of
        None \<Rightarrow> Inl (HTTPException 404 ''User not found'')
      | Some user \<Rightarrow> Inr user)"

text \<open>
  \<^verbatim>\<open>add_user\<close>: the row is built from the payload, added and committed; the
  \<open>IntegrityError\<close> is caught, rolled back and raised as a 400.
\<close>

definition add_user :: "UserCreate \<Rightarrow> db \<Rightarrow> (error + UserDB) \<times> db" where
  "add_user payload d =
     (let user = \<lparr>u_id = 0, u_name = uc_name payload, u_email = uc_email payload,
                  u_age = uc_age payload, u_student_id = uc_student_id payload\<rparr>
      in case insert_user user d of
           Some (row, d') \<Rightarrow> (Inr row, d')
         | None \<Rightarrow> (Inl (HTTPException 400 ''User already exists''), d))"

definition patch_user :: "int \<Rightarrow> UserUpdate \<Rightarrow> db \<Rightarrow> (error + UserDB) \<times> db" where
  "patch_user users_id payload d =
     (case get_UserDB d users_id of
        None \<Rightarrow> (Inl (HTTPException 404 ''User not found''), d)
      | Some user \<Rightarrow>
          (case (case (setattr_required (uu_student_id payload) (u_student_id user),
                       setattr_required (uu_name payload) (u_name user),
                       setattr_required (uu_email payload) (u_email user),
                       setattr_required (uu_age payload) (u_age user)) of
                   (Some s, Some n, Some e, Some a) \<Rightarrow>
                     update_user_row
                       (user\<lparr>u_student_id := s, u_name := n, u_email := e, u_age := a\<rparr>) d
                 | _ \<Rightarrow> None) of
             Some (row, d') \<Rightarrow> (Inr row, d')
           | None \<Rightarrow> (Inl (HTTPException 400 ''Email or Student ID already exists''), d)))"

text \<open>
  \<^verbatim>\<open>delete_user\<close>: \<^verbatim>\<open>db.delete(user)\<close> deletes the rows of \<^verbatim>\<open>user.projects\<close> with the
  user (\<^verbatim>\<open>cascade="all, delete-orphan"\<close>, and \<^verbatim>\<open>ondelete="CASCADE"\<close> on the foreign key).
\<close>

definition delete_user :: "int \<Rightarrow> db \<Rightarrow> (error + unit) \<times> db" where
  "delete_user users_id d =
     (case get_UserDB d users_id of
        None \<Rightarrow> (Inl (HTTPException 404 ''User not found''), d)
      | Some user \<Rightarrow>
          (Inr (),
           d\<lparr>users := filter (\<lambda>v. u_id v \<noteq> u_id user) (users d),
             projects := filter (\<lambda>p. p_owner_id p \<noteq> u_id user) (projects d)\<rparr>))"

section \<open>Routes: how the framework calls the handlers\<close>

text \<open>
  The parameters a request carries: those matched by the path template and those of the
  query string, by name (the values already read as integers).
\<close>

record request =
  path_params :: "(string \<times> int) list"
  query_params :: "(string \<times> int) list"

text \<open>
  The framework binds a handler's scalar parameter by its name: to the path when the
  route's template has a placeholder of that name, to the query string otherwise. A
  parameter without default that is missing fails the request with a 422; one with a
  default takes it.
\<close>

definition resolve_param :: "string list \<Rightarrow> string \<Rightarrow> request \<Rightarrow> int option" where
  "resolve_param template_names pname req =
     (if pname \<in> set template_names then map_of (path_params req) pname
      else map_of (query_params req) pname)"

definition resolve_default :: "string list \<Rightarrow> string \<Rightarrow> int \<Rightarrow> request \<Rightarrow> int" where
  "resolve_default template_names pname dflt req =
     (case resolve_param template_names pname req of None \<Rightarrow> dflt | Some v \<Rightarrow> v)"

text \<open>\<^verbatim>\<open>@app.get("/api/courses")\<close>, \<^verbatim>\<open>list_courses(limit: int = 10, offset: int = 0, ...)\<close>.\<close>

definition get_api_courses :: "request \<Rightarrow> db \<Rightarrow> CourseDB list" where
  "get_api_courses req d =
     list_courses (resolve_default [] ''limit'' 10 req) (resolve_default [] ''offset'' 0 req) d"

text \<open>\<^verbatim>\<open>@app.put("/api/projects/update/{project_id}")\<close>, \<^verbatim>\<open>update_project(project_id: int, payload: ProjectCreate, ...)\<close>.\<close>

definition put_api_projects_update ::
  "request \<Rightarrow> ProjectCreate_body \<Rightarrow> db \<Rightarrow> (error + ProjectDB) \<times> db" where
  "put_api_projects_update req body d =
     (case (resolve_param [''project_id''] ''project_id'' req, ProjectCreate_validate body) of
        (Some project_id, Some payload) \<Rightarrow> update_project project_id payload d
      | _ \<Rightarrow> (Inl RequestValidationError, d))"

text \<open>\<^verbatim>\<open>@app.patch("/api/projects/patch/{project_id}")\<close>, \<^verbatim>\<open>patch_project(project_id: int, payload: ProjectUpdate, ...)\<close>.\<close>

definition patch_api_projects_patch ::
  "request \<Rightarrow> ProjectUpdate \<Rightarrow> db \<Rightarrow> (error + ProjectDB) \<times> db" where
  "patch_api_projects_patch req body d =
     (case (resolve_param [''project_id''] ''project_id'' req, ProjectUpdate_validate body) of
        (Some project_id, Some payload) \<Rightarrow> patch_project project_id payload d
      | _ \<Rightarrow> (Inl RequestValidationError, d))"

text \<open>\<^verbatim>\<open>@app.get("/api/users/{users_id}/projects")\<close>, \<^verbatim>\<open>get_user_projects(users_id: int, ...)\<close>.\<close>

definition get_api_users_projects :: "request \<Rightarrow> db \<Rightarrow> error + ProjectDB list" where
  "get_api_users_projects req d =
     (case resolve_param [''users_id''] ''users_id'' req of
        Some users_id \<Rightarrow> Inr (get_user_projects users_id d)
      | None \<Rightarrow> Inl RequestValidationError)"

text \<open>
  \<^verbatim>\<open>@app.post("/api/users/{user_id}/projects")\<close>,
  \<^verbatim>\<open>create_user_project(users_id: int, project: ProjectCreateForUser, ...)\<close>: the template's
  placeholder is \<^verbatim>\<open>user_id\<close>, the handler's parameter is \<^verbatim>\<open>users_id\<close>.
\<close>

definition post_api_users_projects ::
  "request \<Rightarrow> ProjectCreateForUser_body \<Rightarrow> db \<Rightarrow> (error + ProjectDB) \<times> db" where
  "post_api_users_projects req body d =
     (case (resolve_param [''user_id''] ''users_id'' req, ProjectCreateForUser_validate body) of
        (Some users_id, Some project) \<Rightarrow> create_user_project users_id project d
      | _ \<Rightarrow> (Inl RequestValidationError, d))"

text \<open>\<^verbatim>\<open>@app.post("/api/users")\<close>, \<^verbatim>\<open>add_user(payload: UserCreate, ...)\<close>.\<close>

definition post_api_users ::
  "(string \<Rightarrow> string option) \<Rightarrow> UserCreate_body \<Rightarrow> db \<Rightarrow> (error + UserDB) \<times> db" where
  "post_api_users EmailStr body d =
     (case UserCreate_validate EmailStr body of
        Some payload \<Rightarrow> add_user payload d
      | None \<Rightarrow> (Inl RequestValidationError, d))"

text \<open>\<^verbatim>\<open>@app.patch("/api/users/patch/{users_id}")\<close>, \<^verbatim>\<open>patch_user(users_id: int, payload: UserUpdate, ...)\<close>.\<close>

definition patch_api_users_patch ::
  "(string \<Rightarrow> string option) \<Rightarrow> request \<Rightarrow> UserUpdate \<Rightarrow> db \<Rightarrow> (error + UserDB) \<times> db" where
  "patch_api_users_patch EmailStr req body d =
     (case (resolve_param [''users_id''] ''users_id'' req, UserUpdate_validate EmailStr body) of
        (Some users_id, Some payload) \<Rightarrow> patch_user users_id payload d
      | _ \<Rightarrow> (Inl RequestValidationError, d))"

text \<open>\<^verbatim>\<open>@app.delete("/api/users/delete/{users_id}")\<close>, \<^verbatim>\<open>delete_user(users_id: int, ...)\<close>.\<close>

definition delete_api_users_delete :: "request \<Rightarrow> db \<Rightarrow> (error + unit) \<times> db" where
  "delete_api_users_delete req d =
     (case resolve_param [''users_id''] ''users_id'' req of
        Some users_id \<Rightarrow> delete_user users_id d
      | None \<Rightarrow> (Inl RequestValidationError, d))"

section \<open>The declared constraints as a property of the store\<close>

text \<open>
  What \<^verbatim>\<open>app/models.py\<close> declares, as a predicate on the stored content: primary keys
  and unique columns have no duplicates, and every project's owner is a stored user.
\<close>

definition db_integrity :: "db \<Rightarrow> bool" where
  "db_integrity d =
     (distinct (map u_id (users d)) \<and> distinct (map u_email (users d))
      \<and> distinct (map u_student_id (users d))
      \<and> distinct (map p_id (projects d))
      \<and> distinct (map c_id (courses d)) \<and> distinct (map c_code (courses d))
      \<and> list_all (projects_fk_ok d) (projects d))"

definition empty_db :: db where
  "empty_db = \<lparr>users = [], projects = [], courses = []\<rparr>"

section \<open>The spec's wording of the student id, and example data\<close>

text \<open>
  The spec's sentence, written on its own for comparison with \<open>StudentID\<close>: the letter S
  followed by exactly 7 digits, a digit being one of \<^verbatim>\<open>0\<close> to \<^verbatim>\<open>9\<close> as in the spec's
  examples.
\<close>

definition ascii_digit :: "nat \<Rightarrow> bool" where
  "ascii_digit c = (c \<in> set (str ''0123456789''))"

definition S_then_7_digits :: "py_str \<Rightarrow> bool" where
  "S_then_7_digits s =
     (case s of
        [] \<Rightarrow> False
      | c # ds \<Rightarrow> c = of_char (CHR ''S'') \<and> length ds = 7 \<and> list_all ascii_digit ds)"

text \<open>The same sentence with the digits the pattern's class has: any Unicode decimal digit.\<close>

definition S_then_7_decimal_digits :: "py_str \<Rightarrow> bool" where
  "S_then_7_decimal_digits s =
     (case s of
        [] \<Rightarrow> False
      | c # ds \<Rightarrow> c = of_char (CHR ''S'') \<and> length ds = 7 \<and> list_all is_decimal_digit ds)"

definition example_db :: db where
  "example_db =
     \<lparr>users = [\<lparr>u_id = 1, u_name = ''Ada'', u_email = ''ada@example.com'', u_age = 20,
                u_student_id = str ''S1234567''\<rparr>,
               \<lparr>u_id = 2, u_name = ''Bob'', u_email = ''bob@example.com'', u_age = 31,
                u_student_id = str ''S7654321''\<rparr>],
      projects = [\<lparr>p_id = 1, p_name = ''Compiler'', p_description = None, p_owner_id = 1\<rparr>,
                  \<lparr>p_id = 2, p_name = ''Parser'', p_description = Some ''LL(1)'', p_owner_id = 2\<rparr>,
                  \<lparr>p_id = 3, p_name = ''Lexer'', p_description = None, p_owner_id = 1\<rparr>],
      courses = [\<lparr>c_id = 1, c_code = ''CS101'', c_name = ''Programming'', c_credits = 5\<rparr>]\<rparr>"

section \<open>Lemmas on the store\<close>

lemma next_id_fresh: "next_id ids \<notin> set ids"
proof (cases "ids = []")
  case True
  then show ?thesis by simp
next
  case False
  have "\<forall>x\<in>set ids. x \<le> Max (set ids)" by simp
  then have "Max (set ids) + 1 \<notin> set ids" by fastforce
  with False show ?thesis by (simp add: next_id_def)
qed

lemma get_UserDB_SomeD: "get_UserDB d i = Some u \<Longrightarrow> u \<in> set (users d) \<and> u_id u = i"
  by (auto simp: get_UserDB_def find_Some_iff)

lemma get_UserDB_None_iff: "get_UserDB d i = None \<longleftrightarrow> i \<notin> u_id ` set (users d)"
  by (auto simp: get_UserDB_def find_None_iff)

lemma get_ProjectDB_SomeD: "get_ProjectDB d i = Some p \<Longrightarrow> p \<in> set (projects d) \<and> p_id p = i"
  by (auto simp: get_ProjectDB_def find_Some_iff)

lemma distinct_map_eqD:
  "distinct (map f xs) \<Longrightarrow> x \<in> set xs \<Longrightarrow> y \<in> set xs \<Longrightarrow> f x = f y \<Longrightarrow> x = y"
  by (meson distinct_map inj_onD)

lemma stored_user_unique_ok:
  assumes "db_integrity d" "u \<in> set (users d)"
  shows "users_unique_ok d (u\<lparr>u_age := a\<rparr>)"
proof -
  have e: "distinct (map u_email (users d))" and s: "distinct (map u_student_id (users d))"
    using assms(1) by (simp_all add: db_integrity_def)
  have "u_email v \<noteq> u_email u \<and> u_student_id v \<noteq> u_student_id u"
    if "v \<in> set (users d)" "u_id v \<noteq> u_id u" for v
    using distinct_map_eqD [OF e that(1) assms(2)] distinct_map_eqD [OF s that(1) assms(2)] that(2)
    by auto
  then show ?thesis
    by (auto simp: users_unique_ok_def list_all_iff)
qed

lemma find_map_replace:
  "f u' = i \<Longrightarrow>
   find (\<lambda>v. f v = i) (map (\<lambda>v. if f v = i then u' else v) xs)
     = (case find (\<lambda>v. f v = i) xs of None \<Rightarrow> None | Some _ \<Rightarrow> Some u')"
  by (induction xs) auto

lemma example_db_integrity: "db_integrity example_db"
  by (simp add: db_integrity_def example_db_def projects_fk_ok_def get_UserDB_def str_def)

section \<open>Lemmas on the pattern matcher\<close>

lemma rep_match_Digit_class:
  "rep_match Digit_class n pos s =
     (if n \<le> length s \<and> list_all is_decimal_digit (take n s)
      then Some (pos + n, drop n s) else None)"
proof (induction n arbitrary: pos s)
  case 0
  then show ?case by simp
next
  case (Suc n)
  show ?case
  proof (cases s)
    case Nil
    then show ?thesis by simp
  next
    case (Cons x xs)
    then show ?thesis by (simp add: Suc.IH)
  qed
qed

text \<open>The start anchor leaves the search only the offset 0.\<close>

lemma is_match_anchored:
  "is_match ((Start_anchor, Suc 0) # items) s = seq_match items 0 s"
proof -
  have "is_match ((Start_anchor, Suc 0) # items) s
          = (\<exists>i\<in>set [0..<Suc (length s)]. i = 0 \<and> seq_match items 0 (drop i s))"
    unfolding is_match_def list_ex_iff by simp
  also have "\<dots> = seq_match items 0 s" by auto
  finally show ?thesis .
qed

lemma StudentID_char: "StudentID s = S_then_7_decimal_digits s"
proof (cases s)
  case Nil
  then show ?thesis
    by (simp add: StudentID_def StudentID_pattern_def is_match_anchored
        S_then_7_decimal_digits_def)
next
  case (Cons c ds)
  then show ?thesis
    by (auto simp add: StudentID_def StudentID_pattern_def is_match_anchored
        S_then_7_decimal_digits_def rep_match_Digit_class)
qed

text \<open>The digits 0 to 9 are the first run of the table.\<close>

lemma ascii_digit_iff: "ascii_digit c \<longleftrightarrow> 48 \<le> c \<and> c \<le> 57"
proof -
  have "set (str ''0123456789'') = {48, 49, 50, 51, 52, 53, 54, 55, 56, 57}"
    by (simp add: str_def)
  then have "ascii_digit c \<longleftrightarrow> c \<in> {48, 49, 50, 51, 52, 53, 54, 55, 56, 57}"
    by (simp only: ascii_digit_def)
  also have "\<dots> \<longleftrightarrow> 48 \<le> c \<and> c \<le> 57" by (simp only: insert_iff empty_iff) arith
  finally show ?thesis .
qed

lemma ascii_digit_decimal: "ascii_digit c \<Longrightarrow> is_decimal_digit c"
  by (simp add: ascii_digit_iff is_decimal_digit_def decimal_digit_runs_def)

lemma S_then_7_digits_accepted: "S_then_7_digits s \<Longrightarrow> StudentID s"
  by (auto simp: StudentID_char S_then_7_digits_def S_then_7_decimal_digits_def list_all_iff
      ascii_digit_decimal split: list.splits)

lemma StudentID_examples:
  "StudentID (str ''S1234567'')" "StudentID (str ''S7654321'')" "\<not> StudentID (str ''S123'')"
  "\<not> StudentID (str ''S12345678'')" "\<not> StudentID (str ''s1234567'')"
  "\<not> StudentID (str ''S123456x'')"
  by (simp_all add: StudentID_char S_then_7_decimal_digits_def str_def is_decimal_digit_def
      decimal_digit_runs_def)

section \<open>Creating a user\<close>

text \<open>
  C2. A user-create request whose email or student id equals that of a persisted user
  fails with the conflict signal (the 400 "User already exists"), and the datastore is
  the one before the request: no row is persisted.
\<close>

theorem add_user_duplicate_conflict:
  assumes "\<exists>v\<in>set (users d). u_email v = uc_email payload \<or> u_student_id v = uc_student_id payload"
  shows "add_user payload d = (Inl (HTTPException 400 ''User already exists''), d)"
proof -
  from assms obtain v where v: "v \<in> set (users d)"
    and dup: "u_email v = uc_email payload \<or> u_student_id v = uc_student_id payload"
    by blast
  let ?row = "\<lparr>u_id = next_id (map u_id (users d)), u_name = uc_name payload,
               u_email = uc_email payload, u_age = uc_age payload,
               u_student_id = uc_student_id payload\<rparr>"
  have "u_id v \<in> set (map u_id (users d))" using v by simp
  then have "u_id v \<noteq> next_id (map u_id (users d))"
    using next_id_fresh [of "map u_id (users d)"] by metis
  with v dup have "\<not> users_unique_ok d ?row"
    by (auto simp: users_unique_ok_def list_all_iff)
  then show ?thesis
    by (simp add: add_user_def insert_user_def Let_def)
qed

text \<open>The same student id as Ada's, with a new email, on the example store.\<close>

theorem add_user_duplicate_conflict_witness:
  "(\<exists>v\<in>set (users example_db).
      u_email v = ''eve@example.com'' \<or> u_student_id v = str ''S1234567'')
   \<and> add_user \<lparr>uc_student_id = str ''S1234567'', uc_name = ''Eve'', uc_email = ''eve@example.com'',
                uc_age = 22\<rparr> example_db
      = (Inl (HTTPException 400 ''User already exists''), example_db)"
proof -
  have h: "\<exists>v\<in>set (users example_db).
      u_email v = uc_email \<lparr>uc_student_id = str ''S1234567'', uc_name = ''Eve'',
                             uc_email = ''eve@example.com'', uc_age = 22\<rparr>
      \<or> u_student_id v = uc_student_id \<lparr>uc_student_id = str ''S1234567'', uc_name = ''Eve'',
                             uc_email = ''eve@example.com'', uc_age = 22\<rparr>"
    by (simp add: example_db_def)
  show ?thesis
    using add_user_duplicate_conflict [OF h] h by simp
qed

text \<open>
  C5. A user-create body with age 18 is rejected by the schema, whatever its other keys,
  and the route answers the validation error with the datastore untouched; with age 19
  and the other keys valid the schema accepts it.
\<close>

theorem UserCreate_age_must_exceed_18:
  "UserCreate_validate EmailStr (b\<lparr>ucb_age := Val 18\<rparr>) = None
   \<and> post_api_users EmailStr (b\<lparr>ucb_age := Val 18\<rparr>) d = (Inl RequestValidationError, d)
   \<and> (ucb_student_id b = Val s \<and> StudentID s \<and> ucb_name b = Val n \<and> NameStr n
        \<and> ucb_email b = Val e \<and> EmailStr e = Some e'
      \<longrightarrow> UserCreate_validate EmailStr (b\<lparr>ucb_age := Val 19\<rparr>)
            = Some \<lparr>uc_student_id = s, uc_name = n, uc_email = e', uc_age = 19\<rparr>)"
  by (auto simp: UserCreate_validate_def post_api_users_def split: field.splits option.splits)

theorem UserCreate_age_must_exceed_18_witness:
  "ucb_student_id \<lparr>ucb_student_id = Val (str ''S1234567''), ucb_name = Val ''Ada'',
                    ucb_email = Val ''ada@example.com'', ucb_age = Unset\<rparr> = Val (str ''S1234567'')
   \<and> StudentID (str ''S1234567'') \<and> NameStr ''Ada''
   \<and> UserCreate_validate Some \<lparr>ucb_student_id = Val (str ''S1234567''), ucb_name = Val ''Ada'',
         ucb_email = Val ''ada@example.com'', ucb_age = Val 19\<rparr>
       = Some \<lparr>uc_student_id = str ''S1234567'', uc_name = ''Ada'', uc_email = ''ada@example.com'',
               uc_age = 19\<rparr>
   \<and> UserCreate_validate Some \<lparr>ucb_student_id = Val (str ''S1234567''), ucb_name = Val ''Ada'',
         ucb_email = Val ''ada@example.com'', ucb_age = Val 18\<rparr> = None
   \<and> post_api_users Some \<lparr>ucb_student_id = Val (str ''S1234567''), ucb_name = Val ''Ada'',
         ucb_email = Val ''ada@example.com'', ucb_age = Val 18\<rparr> empty_db
       = (Inl RequestValidationError, empty_db)"
proof -
  have s: "StudentID (str ''S1234567'')"
    by (rule StudentID_examples)
  have n: "NameStr ''Ada''" by (simp add: NameStr_def)
  show ?thesis
    using UserCreate_age_must_exceed_18
      [of Some "\<lparr>ucb_student_id = Val (str ''S1234567''), ucb_name = Val ''Ada'',
                  ucb_email = Val ''ada@example.com'', ucb_age = Unset\<rparr>"
          empty_db "str ''S1234567''" "''Ada''" "''ada@example.com''" "''ada@example.com''"] s n
    by simp
qed

text \<open>
  C6, as the spec states it, at a concrete input. The letter S, the digits 123456 and
  the Arabic-Indic digit seven (U+0667) is accepted as a student id, although it is not
  the letter S followed by seven of the digits 0 to 9.
\<close>

theorem StudentID_ascii_digits_counterexample:
  "StudentID [0x53, 0x31, 0x32, 0x33, 0x34, 0x35, 0x36, 0x667]
   \<and> \<not> S_then_7_digits [0x53, 0x31, 0x32, 0x33, 0x34, 0x35, 0x36, 0x667]"
proof -
  have a: "StudentID [0x53, 0x31, 0x32, 0x33, 0x34, 0x35, 0x36, 0x667]"
    by (simp add: StudentID_char S_then_7_decimal_digits_def is_decimal_digit_def
        decimal_digit_runs_def)
  have b: "\<not> S_then_7_digits [0x53, 0x31, 0x32, 0x33, 0x34, 0x35, 0x36, 0x667]"
    by (simp add: S_then_7_digits_def ascii_digit_iff)
  from a b show ?thesis by simp
qed

text \<open>
  C6, amended. The student id of a user-create body is accepted exactly when it is the
  letter S followed by exactly 7 decimal digits, a decimal digit being any character of
  the pattern's class: a Unicode decimal digit, of which 0 to 9 are ten. So every S
  followed by seven of the digits 0 to 9 is accepted, "S123" is rejected, "S1234567" is
  accepted, and a body passes the schema only with such a student id.
\<close>

theorem StudentID_S_then_7_decimal_digits:
  "(StudentID s \<longleftrightarrow>
      (\<exists>ds. s = of_char (CHR ''S'') # ds \<and> length ds = 7 \<and> (\<forall>c\<in>set ds. is_decimal_digit c)))
   \<and> StudentID s = S_then_7_decimal_digits s
   \<and> (S_then_7_digits s \<longrightarrow> StudentID s)
   \<and> (ascii_digit c \<longrightarrow> is_decimal_digit c)
   \<and> \<not> StudentID (str ''S123'') \<and> StudentID (str ''S1234567'')
   \<and> (UserCreate_validate EmailStr b \<noteq> None \<longleftrightarrow>
        (\<exists>sid n e a. ucb_student_id b = Val sid \<and> S_then_7_decimal_digits sid
           \<and> ucb_name b = Val n \<and> NameStr n \<and> ucb_email b = Val e \<and> EmailStr e \<noteq> None
           \<and> ucb_age b = Val a \<and> 18 < a))"
proof -
  have a: "StudentID s \<longleftrightarrow>
      (\<exists>ds. s = of_char (CHR ''S'') # ds \<and> length ds = 7 \<and> (\<forall>c\<in>set ds. is_decimal_digit c))"
    by (cases s) (auto simp: StudentID_char S_then_7_decimal_digits_def list_all_iff)
  have d: "UserCreate_validate EmailStr b \<noteq> None \<longleftrightarrow>
        (\<exists>sid n e a. ucb_student_id b = Val sid \<and> S_then_7_decimal_digits sid
           \<and> ucb_name b = Val n \<and> NameStr n \<and> ucb_email b = Val e \<and> EmailStr e \<noteq> None
           \<and> ucb_age b = Val a \<and> 18 < a)"
    by (auto simp: UserCreate_validate_def StudentID_char split: field.splits option.splits)
  show ?thesis
    using a d StudentID_char S_then_7_digits_accepted ascii_digit_decimal
      StudentID_examples(1) StudentID_examples(3)
    by blast
qed

text \<open>
  Seven digits 0 to 9, seven digits of which one is not ASCII (the fullwidth digit one,
  U+FF11), too few and too many digits, a small s, a letter among the digits.
\<close>

theorem StudentID_S_then_7_decimal_digits_witness:
  "S_then_7_digits (str ''S7654321'') \<and> StudentID (str ''S7654321'')
   \<and> list_all is_decimal_digit [0xFF11, 0x32, 0x33, 0x34, 0x35, 0x36, 0x37]
   \<and> StudentID [0x53, 0xFF11, 0x32, 0x33, 0x34, 0x35, 0x36, 0x37]
   \<and> ascii_digit 0x39 \<and> is_decimal_digit 0x39
   \<and> \<not> StudentID (str ''S123'') \<and> \<not> StudentID (str ''S12345678'')
   \<and> \<not> StudentID (str ''s1234567'') \<and> \<not> StudentID (str ''S123456x'')"
proof -
  have w: "S_then_7_digits (str ''S7654321'')"
    by (simp add: S_then_7_digits_def str_def ascii_digit_iff)
  have d: "\<forall>c\<in>set [0xFF11, 0x32, 0x33, 0x34, 0x35, 0x36, 0x37 :: nat]. is_decimal_digit c"
    by (simp add: is_decimal_digit_def decimal_digit_runs_def)
  have n: "ascii_digit 0x39" by (simp add: ascii_digit_iff)
  have "StudentID (str ''S7654321'')"
    using StudentID_S_then_7_decimal_digits [of "str ''S7654321''"] w by blast
  moreover have "StudentID [0x53, 0xFF11, 0x32, 0x33, 0x34, 0x35, 0x36, 0x37]"
    using StudentID_S_then_7_decimal_digits [of "[0x53, 0xFF11, 0x32, 0x33, 0x34, 0x35, 0x36, 0x37]"] d
    by simp
  moreover have "is_decimal_digit 0x39"
    using StudentID_S_then_7_decimal_digits [of _ "0x39"] n by blast
  moreover have "\<not> StudentID (str ''S12345678'')" "\<not> StudentID (str ''s1234567'')"
    "\<not> StudentID (str ''S123456x'')" "\<not> StudentID (str ''S123'')"
    using StudentID_S_then_7_decimal_digits [of "str ''S12345678''"]
      StudentID_S_then_7_decimal_digits [of "str ''s1234567''"]
      StudentID_S_then_7_decimal_digits [of "str ''S123456x''"]
      StudentID_S_then_7_decimal_digits [of "str ''S123''"]
    by (simp_all add: str_def is_decimal_digit_def decimal_digit_runs_def)
  ultimately show ?thesis
    using w d n by (simp add: list_all_iff)
qed

section \<open>Partial update of a user\<close>

text \<open>
  C10. For every existing user (in a store that satisfies the declared constraints), the
  partial update with only age = 18 passes the update schema, whose bound is
  \<open>18 \<le> age\<close>, and is committed: the stored user then has age 18, an age that the create
  schema rejects for every body.
\<close>

theorem patch_user_accepts_age_18:
  assumes "db_integrity d" and "get_UserDB d uid = Some u"
  defines "payload \<equiv> \<lparr>uu_student_id = Unset, uu_name = Unset, uu_email = Unset, uu_age = Val 18\<rparr>"
  defines "d' \<equiv> d\<lparr>users := map (\<lambda>v. if u_id v = uid then u\<lparr>u_age := 18\<rparr> else v) (users d)\<rparr>"
  shows "AgeInt 18
    \<and> UserUpdate_validate EmailStr payload = Some payload
    \<and> patch_user uid payload d = (Inr (u\<lparr>u_age := 18\<rparr>), d')
    \<and> patch_api_users_patch EmailStr \<lparr>path_params = [(''users_id'', uid)], query_params = q\<rparr> payload d
        = (Inr (u\<lparr>u_age := 18\<rparr>), d')
    \<and> get_user uid d' = Inr (u\<lparr>u_age := 18\<rparr>)
    \<and> \<not> 18 < u_age (u\<lparr>u_age := 18\<rparr>)
    \<and> (\<forall>b. ucb_age b = Val 18 \<longrightarrow> UserCreate_validate EmailStr b = None)"
proof -
  from assms(2) have mem: "u \<in> set (users d)" and uid: "u_id u = uid"
    by (simp_all add: get_UserDB_SomeD)
  have val: "UserUpdate_validate EmailStr payload = Some payload"
    by (simp add: UserUpdate_validate_def payload_def optional_ok_def AgeInt_def
        normalised_email_def)
  have ok: "users_unique_ok d (u\<lparr>u_age := 18\<rparr>)"
    using stored_user_unique_ok [OF assms(1) mem] .
  have patch: "patch_user uid payload d = (Inr (u\<lparr>u_age := 18\<rparr>), d')"
    using assms(2) ok uid
    by (simp add: patch_user_def payload_def setattr_required_def update_user_row_def d'_def)
  have route: "patch_api_users_patch EmailStr \<lparr>path_params = [(''users_id'', uid)], query_params = q\<rparr> payload d
        = (Inr (u\<lparr>u_age := 18\<rparr>), d')"
    by (simp add: patch_api_users_patch_def resolve_param_def val patch)
  have "find (\<lambda>v. u_id v = uid) (map (\<lambda>v. if u_id v = uid then u\<lparr>u_age := 18\<rparr> else v) (users d))
          = Some (u\<lparr>u_age := 18\<rparr>)"
    using assms(2) uid by (simp add: find_map_replace get_UserDB_def)
  then have after: "get_user uid d' = Inr (u\<lparr>u_age := 18\<rparr>)"
    by (simp add: get_user_def get_UserDB_def d'_def)
  have create: "\<forall>b. ucb_age b = Val 18 \<longrightarrow> UserCreate_validate EmailStr b = None"
    by (auto simp: UserCreate_validate_def split: field.splits option.splits)
  show ?thesis
    using val patch route after create by (simp add: AgeInt_def)
qed

text \<open>Bob, aged 31 in the example store, is patched to 18.\<close>

theorem patch_user_accepts_age_18_witness:
  "db_integrity example_db
   \<and> get_UserDB example_db 2
       = Some \<lparr>u_id = 2, u_name = ''Bob'', u_email = ''bob@example.com'', u_age = 31,
               u_student_id = str ''S7654321''\<rparr>
   \<and> patch_user 2 \<lparr>uu_student_id = Unset, uu_name = Unset, uu_email = Unset, uu_age = Val 18\<rparr>
       example_db
      = (Inr \<lparr>u_id = 2, u_name = ''Bob'', u_email = ''bob@example.com'', u_age = 18,
              u_student_id = str ''S7654321''\<rparr>,
         example_db\<lparr>users :=
           [\<lparr>u_id = 1, u_name = ''Ada'', u_email = ''ada@example.com'', u_age = 20,
             u_student_id = str ''S1234567''\<rparr>,
            \<lparr>u_id = 2, u_name = ''Bob'', u_email = ''bob@example.com'', u_age = 18,
             u_student_id = str ''S7654321''\<rparr>]\<rparr>)"
proof -
  have g: "get_UserDB example_db 2
       = Some \<lparr>u_id = 2, u_name = ''Bob'', u_email = ''bob@example.com'', u_age = 31,
               u_student_id = str ''S7654321''\<rparr>"
    by (simp add: get_UserDB_def example_db_def)
  show ?thesis
    using patch_user_accepts_age_18 [OF example_db_integrity g, of Some] g example_db_integrity
    by (simp add: example_db_def)
qed

section \<open>Deleting a user\<close>

lemma delete_user_integrity:
  assumes "db_integrity d"
  shows "db_integrity (d\<lparr>users := filter (\<lambda>v. u_id v \<noteq> uid) (users d),
                          projects := filter (\<lambda>p. p_owner_id p \<noteq> uid) (projects d)\<rparr>)"
proof -
  have fk: "\<forall>p\<in>set (projects d). p_owner_id p \<in> u_id ` set (users d)"
    using assms by (simp add: db_integrity_def list_all_iff projects_fk_ok_def get_UserDB_None_iff)
  have "\<forall>p\<in>set (projects d). p_owner_id p \<noteq> uid \<longrightarrow>
          p_owner_id p \<in> u_id ` {v \<in> set (users d). u_id v \<noteq> uid}"
    using fk by auto
  then show ?thesis
    using assms
    by (simp add: db_integrity_def list_all_iff projects_fk_ok_def get_UserDB_None_iff
        distinct_map_filter)
qed

text \<open>
  C4. Deleting an existing user succeeds, and afterwards the user is gone and no project
  of the datastore has that user as owner: the projects that remain are exactly those of
  the other owners, and the declared constraints still hold (no orphaned project).
\<close>

theorem delete_user_cascades:
  assumes "get_UserDB d uid = Some u"
  shows "\<exists>d'. delete_user uid d = (Inr (), d')
           \<and> get_UserDB d' uid = None
           \<and> (\<forall>p\<in>set (projects d'). p_owner_id p \<noteq> uid)
           \<and> get_user_projects uid d' = []
           \<and> set (projects d') = {p \<in> set (projects d). p_owner_id p \<noteq> uid}
           \<and> (db_integrity d \<longrightarrow> db_integrity d')"
proof -
  let ?d' = "d\<lparr>users := filter (\<lambda>v. u_id v \<noteq> uid) (users d),
               projects := filter (\<lambda>p. p_owner_id p \<noteq> uid) (projects d)\<rparr>"
  from assms have uid: "u_id u = uid" by (simp add: get_UserDB_SomeD)
  have del: "delete_user uid d = (Inr (), ?d')"
    using assms uid by (simp add: delete_user_def)
  have gone: "get_UserDB ?d' uid = None"
    by (auto simp add: get_UserDB_None_iff)
  have none: "\<forall>p\<in>set (projects ?d'). p_owner_id p \<noteq> uid" by simp
  have empty: "get_user_projects uid ?d' = []"
    by (simp add: get_user_projects_def filter_empty_conv)
  have rest: "set (projects ?d') = {p \<in> set (projects d). p_owner_id p \<noteq> uid}" by simp
  have inv: "db_integrity d \<longrightarrow> db_integrity ?d'"
    using delete_user_integrity by blast
  show ?thesis
    using del gone none empty rest inv by blast
qed

text \<open>Ada owns two of the three projects of the example store; Bob's project remains.\<close>

theorem delete_user_cascades_witness:
  "get_UserDB example_db 1
     = Some \<lparr>u_id = 1, u_name = ''Ada'', u_email = ''ada@example.com'', u_age = 20,
             u_student_id = str ''S1234567''\<rparr>
   \<and> get_user_projects 1 example_db
       = [\<lparr>p_id = 1, p_name = ''Compiler'', p_description = None, p_owner_id = 1\<rparr>,
          \<lparr>p_id = 3, p_name = ''Lexer'', p_description = None, p_owner_id = 1\<rparr>]
   \<and> (\<exists>d'. delete_user 1 example_db = (Inr (), d')
          \<and> projects d' = [\<lparr>p_id = 2, p_name = ''Parser'', p_description = Some ''LL(1)'',
                             p_owner_id = 2\<rparr>]
          \<and> get_user_projects 1 d' = [] \<and> get_UserDB d' 1 = None)"
proof -
  have g: "get_UserDB example_db 1
     = Some \<lparr>u_id = 1, u_name = ''Ada'', u_email = ''ada@example.com'', u_age = 20,
             u_student_id = str ''S1234567''\<rparr>"
    by (simp add: get_UserDB_def example_db_def)
  from delete_user_cascades [OF g] obtain d' where
    d': "delete_user 1 example_db = (Inr (), d')" "get_UserDB d' 1 = None"
      "get_user_projects 1 d' = []"
    by blast
  from d'(1) have "projects d' = [\<lparr>p_id = 2, p_name = ''Parser'', p_description = Some ''LL(1)'',
                             p_owner_id = 2\<rparr>]"
    by (auto simp add: delete_user_def get_UserDB_def example_db_def)
  with d' g show ?thesis
    by (simp add: get_user_projects_def example_db_def)
qed

section \<open>Projects of a user\<close>

text \<open>
  C9. For every user id the relationship fetch answers with a list, never an error: the
  projects whose owner is that id. The user is not looked up; for an id that no user has,
  the answer is the empty list (no project can reference it).
\<close>

theorem get_user_projects_no_existence_check:
  "get_api_users_projects \<lparr>path_params = [(''users_id'', uid)], query_params = q\<rparr> d
     = Inr (get_user_projects uid d)
   \<and> set (get_user_projects uid d) = {p \<in> set (projects d). p_owner_id p = uid}
   \<and> (db_integrity d \<and> get_UserDB d uid = None \<longrightarrow>
        get_api_users_projects \<lparr>path_params = [(''users_id'', uid)], query_params = q\<rparr> d = Inr [])"
proof -
  have r: "get_api_users_projects \<lparr>path_params = [(''users_id'', uid)], query_params = q\<rparr> d
     = Inr (get_user_projects uid d)"
    by (simp add: get_api_users_projects_def resolve_param_def)
  have s: "set (get_user_projects uid d) = {p \<in> set (projects d). p_owner_id p = uid}"
    by (simp add: get_user_projects_def)
  have e: "get_user_projects uid d = []" if "db_integrity d" "get_UserDB d uid = None"
  proof -
    have "\<forall>p\<in>set (projects d). p_owner_id p \<in> u_id ` set (users d)"
      using that(1)
      by (simp add: db_integrity_def list_all_iff projects_fk_ok_def get_UserDB_None_iff)
    moreover have "uid \<notin> u_id ` set (users d)"
      using that(2) by (simp add: get_UserDB_None_iff)
    ultimately have "\<forall>p\<in>set (projects d). p_owner_id p \<noteq> uid" by metis
    then show ?thesis by (simp add: get_user_projects_def filter_empty_conv)
  qed
  show ?thesis using r s e by simp
qed

theorem get_user_projects_no_existence_check_witness:
  "db_integrity example_db \<and> get_UserDB example_db 7 = None
   \<and> get_api_users_projects \<lparr>path_params = [(''users_id'', 7)], query_params = []\<rparr> example_db = Inr []
   \<and> get_api_users_projects \<lparr>path_params = [(''users_id'', 2)], query_params = []\<rparr> example_db
      = Inr [\<lparr>p_id = 2, p_name = ''Parser'', p_description = Some ''LL(1)'', p_owner_id = 2\<rparr>]"
proof -
  have g: "get_UserDB example_db 7 = None"
    by (simp add: get_UserDB_def example_db_def)
  have a: "get_api_users_projects \<lparr>path_params = [(''users_id'', 7)], query_params = []\<rparr> example_db = Inr []"
    using get_user_projects_no_existence_check [of 7 "[]" example_db] g example_db_integrity
    by blast
  have "get_api_users_projects \<lparr>path_params = [(''users_id'', 2)], query_params = []\<rparr> example_db
          = Inr (get_user_projects 2 example_db)"
    using get_user_projects_no_existence_check [of 2 "[]" example_db] by blast
  then have b: "get_api_users_projects \<lparr>path_params = [(''users_id'', 2)], query_params = []\<rparr> example_db
      = Inr [\<lparr>p_id = 2, p_name = ''Parser'', p_description = Some ''LL(1)'', p_owner_id = 2\<rparr>]"
    by (simp add: get_user_projects_def example_db_def)
  show ?thesis
    using a b g example_db_integrity by simp
qed

section \<open>Listing courses\<close>

lemma list_courses_sorted: "sorted (map c_id (list_courses limit offset d))"
proof -
  have "sorted (map c_id (sort_key c_id (courses d)))" by (rule sorted_sort_key)
  then have "sorted (drop (nat offset) (map c_id (sort_key c_id (courses d))))"
    by (rule sorted_wrt_drop)
  then have s: "sorted (map c_id (sql_offset offset (sort_key c_id (courses d))))"
    by (simp add: sql_offset_def drop_map)
  then have "sorted (take (nat limit) (map c_id (sql_offset offset (sort_key c_id (courses d)))))"
    by (rule sorted_wrt_take)
  with s show ?thesis
    by (simp add: list_courses_def sql_limit_def take_map)
qed

text \<open>
  C8. The course listing is ordered by primary key ascending; for a limit and an offset
  that are not negative it is the ordered table without its first \<open>offset\<close> rows, cut to
  \<open>limit\<close> rows; a request without the two parameters lists with limit 10 and offset 0;
  and after two courses (of different codes) were inserted into an empty table, the
  listing with limit 1 and offset 1 is exactly the second one.
\<close>

theorem list_courses_ordered_limit_offset:
  "sorted (map c_id (list_courses limit offset d))
   \<and> (0 \<le> limit \<and> 0 \<le> offset \<longrightarrow>
        (\<exists>ordered. sorted (map c_id ordered) \<and> set ordered = set (courses d)
           \<and> length ordered = length (courses d)
           \<and> list_courses limit offset d = take (nat limit) (drop (nat offset) ordered)))
   \<and> get_api_courses \<lparr>path_params = pp, query_params = []\<rparr> d = list_courses 10 0 d
   \<and> get_api_courses \<lparr>path_params = pp, query_params = [(''limit'', limit), (''offset'', offset)]\<rparr> d
        = list_courses limit offset d
   \<and> (courses d = [] \<and> cc_code a \<noteq> cc_code b \<longrightarrow>
        (\<exists>d1 d2. create_course a d = (Inr \<lparr>c_id = 1, c_code = cc_code a, c_name = cc_name a, c_credits = cc_credits a\<rparr>, d1)
           \<and> create_course b d1 = (Inr \<lparr>c_id = 2, c_code = cc_code b, c_name = cc_name b, c_credits = cc_credits b\<rparr>, d2)
           \<and> courses d2 = [\<lparr>c_id = 1, c_code = cc_code a, c_name = cc_name a, c_credits = cc_credits a\<rparr>,
                            \<lparr>c_id = 2, c_code = cc_code b, c_name = cc_name b, c_credits = cc_credits b\<rparr>]
           \<and> list_courses 1 1 d2 = [\<lparr>c_id = 2, c_code = cc_code b, c_name = cc_name b, c_credits = cc_credits b\<rparr>]))"
proof -
  have ord: "0 \<le> limit \<and> 0 \<le> offset \<longrightarrow>
        (\<exists>ordered. sorted (map c_id ordered) \<and> set ordered = set (courses d)
           \<and> length ordered = length (courses d)
           \<and> list_courses limit offset d = take (nat limit) (drop (nat offset) ordered))"
  proof
    assume "0 \<le> limit \<and> 0 \<le> offset"
    then have "list_courses limit offset d
                 = take (nat limit) (drop (nat offset) (sort_key c_id (courses d)))"
      by (simp add: list_courses_def sql_limit_def sql_offset_def)
    then show "\<exists>ordered. sorted (map c_id ordered) \<and> set ordered = set (courses d)
           \<and> length ordered = length (courses d)
           \<and> list_courses limit offset d = take (nat limit) (drop (nat offset) ordered)"
      by (intro exI [of _ "sort_key c_id (courses d)"]) (simp add: sorted_sort_key)
  qed
  have dflt: "get_api_courses \<lparr>path_params = pp, query_params = []\<rparr> d = list_courses 10 0 d"
    by (simp add: get_api_courses_def resolve_default_def resolve_param_def)
  have given: "get_api_courses \<lparr>path_params = pp, query_params = [(''limit'', limit), (''offset'', offset)]\<rparr> d
        = list_courses limit offset d"
    by (simp add: get_api_courses_def resolve_default_def resolve_param_def)
  have two: "courses d = [] \<and> cc_code a \<noteq> cc_code b \<longrightarrow>
        (\<exists>d1 d2. create_course a d = (Inr \<lparr>c_id = 1, c_code = cc_code a, c_name = cc_name a, c_credits = cc_credits a\<rparr>, d1)
           \<and> create_course b d1 = (Inr \<lparr>c_id = 2, c_code = cc_code b, c_name = cc_name b, c_credits = cc_credits b\<rparr>, d2)
           \<and> courses d2 = [\<lparr>c_id = 1, c_code = cc_code a, c_name = cc_name a, c_credits = cc_credits a\<rparr>,
                            \<lparr>c_id = 2, c_code = cc_code b, c_name = cc_name b, c_credits = cc_credits b\<rparr>]
           \<and> list_courses 1 1 d2 = [\<lparr>c_id = 2, c_code = cc_code b, c_name = cc_name b, c_credits = cc_credits b\<rparr>])"
  proof
    assume h: "courses d = [] \<and> cc_code a \<noteq> cc_code b"
    let ?ra = "\<lparr>c_id = 1, c_code = cc_code a, c_name = cc_name a, c_credits = cc_credits a\<rparr>"
    let ?rb = "\<lparr>c_id = 2, c_code = cc_code b, c_name = cc_name b, c_credits = cc_credits b\<rparr>"
    let ?d1 = "d\<lparr>courses := [?ra]\<rparr>"
    let ?d2 = "d\<lparr>courses := [?ra, ?rb]\<rparr>"
    have 1: "create_course a d = (Inr ?ra, ?d1)"
      using h by (simp add: create_course_def insert_course_def commit_or_rollback_def refresh_def
          next_id_def courses_unique_ok_def Let_def)
    have 2: "create_course b ?d1 = (Inr ?rb, ?d2)"
      using h by (simp add: create_course_def insert_course_def commit_or_rollback_def refresh_def
          next_id_def courses_unique_ok_def Let_def)
    have 3: "list_courses 1 1 ?d2 = [?rb]"
      by (simp add: list_courses_def sql_limit_def sql_offset_def)
    have 4: "courses ?d2 = [?ra, ?rb]" by simp
    from 1 2 3 4 show "\<exists>d1 d2. create_course a d = (Inr ?ra, d1)
           \<and> create_course b d1 = (Inr ?rb, d2) \<and> courses d2 = [?ra, ?rb]
           \<and> list_courses 1 1 d2 = [?rb]"
      by blast
  qed
  show ?thesis
    using list_courses_sorted ord dflt given two by blast
qed

text \<open>Two courses inserted into the empty store, then listed.\<close>

theorem list_courses_ordered_limit_offset_witness:
  "courses empty_db = []
   \<and> (\<exists>d1 d2.
        create_course \<lparr>cc_code = ''CS101'', cc_name = ''Programming'', cc_credits = 5\<rparr> empty_db
          = (Inr \<lparr>c_id = 1, c_code = ''CS101'', c_name = ''Programming'', c_credits = 5\<rparr>, d1)
        \<and> create_course \<lparr>cc_code = ''MA201'', cc_name = ''Algebra'', cc_credits = 10\<rparr> d1
          = (Inr \<lparr>c_id = 2, c_code = ''MA201'', c_name = ''Algebra'', c_credits = 10\<rparr>, d2)
        \<and> get_api_courses \<lparr>path_params = [], query_params = [(''limit'', 1), (''offset'', 1)]\<rparr> d2
          = [\<lparr>c_id = 2, c_code = ''MA201'', c_name = ''Algebra'', c_credits = 10\<rparr>]
        \<and> get_api_courses \<lparr>path_params = [], query_params = []\<rparr> d2
          = [\<lparr>c_id = 1, c_code = ''CS101'', c_name = ''Programming'', c_credits = 5\<rparr>,
             \<lparr>c_id = 2, c_code = ''MA201'', c_name = ''Algebra'', c_credits = 10\<rparr>])"
proof -
  let ?a = "\<lparr>cc_code = ''CS101'', cc_name = ''Programming'', cc_credits = 5\<rparr>"
  let ?b = "\<lparr>cc_code = ''MA201'', cc_name = ''Algebra'', cc_credits = 10\<rparr>"
  let ?ra = "\<lparr>c_id = 1, c_code = ''CS101'', c_name = ''Programming'', c_credits = 5\<rparr>"
  let ?rb = "\<lparr>c_id = 2, c_code = ''MA201'', c_name = ''Algebra'', c_credits = 10\<rparr>"
  have e: "courses empty_db = []" by (simp add: empty_db_def)
  have ne: "cc_code ?a \<noteq> cc_code ?b" by simp
  from list_courses_ordered_limit_offset [of 1 1 empty_db "[]" ?a ?b] e ne
  obtain d1 d2 where
    c1: "create_course ?a empty_db = (Inr ?ra, d1)" and
    c2: "create_course ?b d1 = (Inr ?rb, d2)" and
    cs: "courses d2 = [?ra, ?rb]" and
    l: "list_courses 1 1 d2 = [?rb]"
    by auto
  have q: "get_api_courses \<lparr>path_params = [], query_params = [(''limit'', 1), (''offset'', 1)]\<rparr> d2
             = list_courses 1 1 d2"
    using list_courses_ordered_limit_offset [of 1 1 d2 "[]"] by blast
  have "get_api_courses \<lparr>path_params = [], query_params = []\<rparr> d2 = list_courses 10 0 d2"
    using list_courses_ordered_limit_offset [of 1 1 d2 "[]"] by blast
  then have dflt: "get_api_courses \<lparr>path_params = [], query_params = []\<rparr> d2 = [?ra, ?rb]"
    using cs by (simp add: list_courses_def sql_limit_def sql_offset_def)
  show ?thesis
    using e c1 c2 q l dflt by auto
qed

section \<open>Updating a project\<close>

lemma stored_project_fk_ok:
  assumes "db_integrity d" "proj \<in> set (projects d)"
  shows "projects_fk_ok d (proj\<lparr>p_description := ds\<rparr>)"
  using assms by (simp add: db_integrity_def list_all_iff projects_fk_ok_def)

text \<open>
  C7. For every existing project (in a store that satisfies the declared constraints):
  the partial update that supplies only the description succeeds and changes the
  description alone, the name, the key and the owner staying as they were; the full
  update is refused by its schema when the name is absent, and otherwise (its owner
  being a stored user) overwrites name, description and owner from the payload.
\<close>

theorem project_patch_and_put:
  assumes "db_integrity d" and "get_ProjectDB d pid = Some proj"
  shows "(desc \<noteq> Unset \<longrightarrow>
            (\<exists>row d'. patch_project pid \<lparr>pu_name = Unset, pu_description = desc\<rparr> d = (Inr row, d')
               \<and> row = proj\<lparr>p_description := optional_value desc\<rparr>
               \<and> p_name row = p_name proj \<and> p_id row = p_id proj \<and> p_owner_id row = p_owner_id proj
               \<and> get_ProjectDB d' pid = Some row))
       \<and> (pcb_name body = Unset \<longrightarrow>
            ProjectCreate_validate body = None
            \<and> put_api_projects_update req body d = (Inl RequestValidationError, d))
       \<and> (get_UserDB d (pc_owner_id payload) \<noteq> None \<longrightarrow>
            (\<exists>row d'. update_project pid payload d = (Inr row, d')
               \<and> row = \<lparr>p_id = pid, p_name = pc_name payload,
                         p_description = pc_description payload,
                         p_owner_id = pc_owner_id payload\<rparr>
               \<and> get_ProjectDB d' pid = Some row))"
proof -
  from assms(2) have mem: "proj \<in> set (projects d)" and pid: "p_id proj = pid"
    by (simp_all add: get_ProjectDB_SomeD)
  have patch: "\<exists>row d'. patch_project pid \<lparr>pu_name = Unset, pu_description = desc\<rparr> d = (Inr row, d')
               \<and> row = proj\<lparr>p_description := optional_value desc\<rparr>
               \<and> p_name row = p_name proj \<and> p_id row = p_id proj \<and> p_owner_id row = p_owner_id proj
               \<and> get_ProjectDB d' pid = Some row"
    if "desc \<noteq> Unset"
  proof -
    let ?row = "proj\<lparr>p_description := optional_value desc\<rparr>"
    let ?d' = "d\<lparr>projects := map (\<lambda>q. if p_id q = pid then ?row else q) (projects d)\<rparr>"
    have sa: "setattr_nullable desc (p_description proj) = optional_value desc"
      using that by (cases desc) (simp_all add: setattr_nullable_def optional_value_def)
    have fk: "projects_fk_ok d ?row"
      using stored_project_fk_ok [OF assms(1) mem] .
    have p: "patch_project pid \<lparr>pu_name = Unset, pu_description = desc\<rparr> d = (Inr ?row, ?d')"
      using assms(2) fk pid
      by (simp add: patch_project_def setattr_required_def sa update_project_row_def)
    have "find (\<lambda>q. p_id q = pid) (map (\<lambda>q. if p_id q = pid then ?row else q) (projects d))
            = Some ?row"
      using assms(2) pid by (simp add: find_map_replace get_ProjectDB_def)
    then have g: "get_ProjectDB ?d' pid = Some ?row"
      by (simp add: get_ProjectDB_def)
    from p g show ?thesis by simp
  qed
  have req: "ProjectCreate_validate body = None
            \<and> put_api_projects_update req body d = (Inl RequestValidationError, d)"
    if "pcb_name body = Unset"
    using that
    by (simp add: ProjectCreate_validate_def put_api_projects_update_def split: option.splits)
  have put: "\<exists>row d'. update_project pid payload d = (Inr row, d')
               \<and> row = \<lparr>p_id = pid, p_name = pc_name payload,
                         p_description = pc_description payload,
                         p_owner_id = pc_owner_id payload\<rparr>
               \<and> get_ProjectDB d' pid = Some row"
    if "get_UserDB d (pc_owner_id payload) \<noteq> None"
  proof -
    let ?row = "\<lparr>p_id = pid, p_name = pc_name payload, p_description = pc_description payload,
                 p_owner_id = pc_owner_id payload\<rparr>"
    let ?d' = "d\<lparr>projects := map (\<lambda>q. if p_id q = pid then ?row else q) (projects d)\<rparr>"
    have eq: "proj\<lparr>p_name := pc_name payload, p_description := pc_description payload,
                   p_owner_id := pc_owner_id payload\<rparr> = ?row"
      using pid by simp
    have u: "update_project pid payload d = (Inr ?row, ?d')"
      using assms(2) that
      by (simp add: update_project_def eq update_project_row_def projects_fk_ok_def)
    have "find (\<lambda>q. p_id q = pid) (map (\<lambda>q. if p_id q = pid then ?row else q) (projects d))
            = Some ?row"
      using assms(2) by (simp add: find_map_replace get_ProjectDB_def)
    then have g: "get_ProjectDB ?d' pid = Some ?row"
      by (simp add: get_ProjectDB_def)
    from u g show ?thesis by simp
  qed
  show ?thesis using patch req put by blast
qed

text \<open>
  The project "Parser" of the example store: the patch replaces its description only; the
  full update without a name is refused; the full update replaces name, description
  (by \<^verbatim>\<open>null\<close>) and owner.
\<close>

theorem project_patch_and_put_witness:
  "db_integrity example_db
   \<and> get_ProjectDB example_db 2
       = Some \<lparr>p_id = 2, p_name = ''Parser'', p_description = Some ''LL(1)'', p_owner_id = 2\<rparr>
   \<and> (\<exists>d'. patch_project 2 \<lparr>pu_name = Unset, pu_description = Val ''LR(1)''\<rparr> example_db
          = (Inr \<lparr>p_id = 2, p_name = ''Parser'', p_description = Some ''LR(1)'', p_owner_id = 2\<rparr>, d'))
   \<and> put_api_projects_update \<lparr>path_params = [(''project_id'', 2)], query_params = []\<rparr>
        \<lparr>pcb_name = Unset, pcb_description = Val ''LR(1)'', pcb_owner_id = Val 1\<rparr> example_db
       = (Inl RequestValidationError, example_db)
   \<and> (\<exists>d'. update_project 2 \<lparr>pc_name = ''Scanner'', pc_description = None, pc_owner_id = 1\<rparr>
              example_db
          = (Inr \<lparr>p_id = 2, p_name = ''Scanner'', p_description = None, p_owner_id = 1\<rparr>, d'))"
proof -
  have g: "get_ProjectDB example_db 2
       = Some \<lparr>p_id = 2, p_name = ''Parser'', p_description = Some ''LL(1)'', p_owner_id = 2\<rparr>"
    by (simp add: get_ProjectDB_def example_db_def)
  have o: "get_UserDB example_db (pc_owner_id \<lparr>pc_name = ''Scanner'', pc_description = None,
             pc_owner_id = 1\<rparr>) \<noteq> None"
    by (simp add: get_UserDB_def example_db_def)
  note t = project_patch_and_put [OF example_db_integrity g,
      of "Val ''LR(1)''" "\<lparr>pcb_name = Unset, pcb_description = Val ''LR(1)'', pcb_owner_id = Val 1\<rparr>"
         "\<lparr>path_params = [(''project_id'', 2)], query_params = []\<rparr>"
         "\<lparr>pc_name = ''Scanner'', pc_description = None, pc_owner_id = 1\<rparr>"]
  have a: "\<exists>d'. patch_project 2 \<lparr>pu_name = Unset, pu_description = Val ''LR(1)''\<rparr> example_db
          = (Inr \<lparr>p_id = 2, p_name = ''Parser'', p_description = Some ''LR(1)'', p_owner_id = 2\<rparr>, d')"
    using t by (auto simp: optional_value_def)
  have b: "put_api_projects_update \<lparr>path_params = [(''project_id'', 2)], query_params = []\<rparr>
        \<lparr>pcb_name = Unset, pcb_description = Val ''LR(1)'', pcb_owner_id = Val 1\<rparr> example_db
       = (Inl RequestValidationError, example_db)"
    using t by simp
  have c: "\<exists>d'. update_project 2 \<lparr>pc_name = ''Scanner'', pc_description = None, pc_owner_id = 1\<rparr>
              example_db
          = (Inr \<lparr>p_id = 2, p_name = ''Scanner'', p_description = None, p_owner_id = 1\<rparr>, d')"
    using t o by auto
  show ?thesis
    using example_db_integrity g a b c by simp
qed

section \<open>Creating courses and projects\<close>

text \<open>
  What \<open>create_course\<close> does in general: with the code of a stored course the commit
  fails, nothing is raised by \<open>commit_or_rollback\<close>, and the refresh of the expunged
  object ends the request with the ORM's error; otherwise the row is stored under a key
  that no stored course has.
\<close>

lemma create_course_duplicate:
  assumes "\<exists>v\<in>set (courses d). c_code v = cc_code course"
  shows "create_course course d = (Inl InvalidRequestError, d)"
proof -
  from assms obtain v where v: "v \<in> set (courses d)" and dup: "c_code v = cc_code course"
    by blast
  have "c_id v \<in> set (map c_id (courses d))" using v by simp
  then have "c_id v \<noteq> next_id (map c_id (courses d))"
    using next_id_fresh [of "map c_id (courses d)"] by metis
  with v dup have "\<not> courses_unique_ok d
      \<lparr>c_id = next_id (map c_id (courses d)), c_code = cc_code course, c_name = cc_name course,
        c_credits = cc_credits course\<rparr>"
    by (auto simp: courses_unique_ok_def list_all_iff)
  then show ?thesis
    by (simp add: create_course_def insert_course_def commit_or_rollback_def refresh_def Let_def)
qed

lemma create_course_success:
  assumes "\<forall>v\<in>set (courses d). c_code v \<noteq> cc_code course"
  defines "row \<equiv> \<lparr>c_id = next_id (map c_id (courses d)), c_code = cc_code course,
                   c_name = cc_name course, c_credits = cc_credits course\<rparr>"
  shows "create_course course d = (Inr row, d\<lparr>courses := courses d @ [row]\<rparr>)"
    and "c_id row \<notin> c_id ` set (courses d)"
proof -
  have "courses_unique_ok d row"
    using assms(1) by (auto simp: courses_unique_ok_def list_all_iff row_def)
  then show "create_course course d = (Inr row, d\<lparr>courses := courses d @ [row]\<rparr>)"
    by (simp add: create_course_def insert_course_def commit_or_rollback_def refresh_def Let_def
        row_def)
  show "c_id row \<notin> c_id ` set (courses d)"
    using next_id_fresh [of "map c_id (courses d)"] by (simp add: row_def)
qed

text \<open>
  The two project handlers, given their arguments: 404 for an owner that is not stored,
  otherwise the project is stored for that owner (the \<^verbatim>\<open>projects\<close> table has no unique
  column, so the commit cannot fail once the owner exists).
\<close>

lemma create_user_project_handler:
  "create_user_project users_id project d =
     (if get_UserDB d users_id = None then (Inl (HTTPException 404 ''User not found''), d)
      else (Inr \<lparr>p_id = next_id (map p_id (projects d)), p_name = pf_name project,
                  p_description = pf_description project, p_owner_id = users_id\<rparr>,
            d\<lparr>projects := projects d @
                 [\<lparr>p_id = next_id (map p_id (projects d)), p_name = pf_name project,
                   p_description = pf_description project, p_owner_id = users_id\<rparr>]\<rparr>))"
  by (auto simp: create_user_project_def insert_project_def commit_or_rollback_def refresh_def
      Let_def projects_fk_ok_def)

lemma create_project_handler:
  "create_project project d =
     (if get_UserDB d (pc_owner_id project) = None then (Inl (HTTPException 404 ''User not found''), d)
      else (Inr \<lparr>p_id = next_id (map p_id (projects d)), p_name = pc_name project,
                  p_description = pc_description project, p_owner_id = pc_owner_id project\<rparr>,
            d\<lparr>projects := projects d @
                 [\<lparr>p_id = next_id (map p_id (projects d)), p_name = pc_name project,
                   p_description = pc_description project, p_owner_id = pc_owner_id project\<rparr>]\<rparr>))"
  by (auto simp: create_project_def insert_project_def commit_or_rollback_def refresh_def
      Let_def projects_fk_ok_def)

text \<open>
  C1, at a failing input. The example store has the course CS101; a second create
  request with that code does not end with the 409 conflict that \<open>commit_or_rollback\<close>
  constructs, but with the unhandled \<open>InvalidRequestError\<close> of the refresh.
\<close>

theorem create_course_duplicate_code_no_conflict:
  "create_course \<lparr>cc_code = ''CS101'', cc_name = ''Algorithms'', cc_credits = 10\<rparr> example_db
     = (Inl InvalidRequestError, example_db)
   \<and> fst (create_course \<lparr>cc_code = ''CS101'', cc_name = ''Algorithms'', cc_credits = 10\<rparr> example_db)
     \<noteq> Inl (HTTPException 409 ''Course already exists'')"
proof -
  have "create_course \<lparr>cc_code = ''CS101'', cc_name = ''Algorithms'', cc_credits = 10\<rparr> example_db
     = (Inl InvalidRequestError, example_db)"
    by (rule create_course_duplicate) (simp add: example_db_def)
  then show ?thesis by simp
qed

lemma next_id_example: "next_id (map p_id (projects example_db)) = 4"
  by (simp add: next_id_def example_db_def)

text \<open>
  C3, at failing inputs. The nested create route does not take the user id from the
  path: with user 1 in the path and no query string the request is refused (422) and no
  project is created, although user 1 exists; with \<^verbatim>\<open>users_id=2\<close> in the query string
  the project is created for user 2, whether the path names user 1 or the absent user 99.
\<close>

theorem post_users_projects_ignores_path_id:
  "get_UserDB example_db 1 \<noteq> None
   \<and> post_api_users_projects \<lparr>path_params = [(''user_id'', 1)], query_params = []\<rparr>
        \<lparr>pfb_name = Val ''Thesis'', pfb_description = Unset\<rparr> example_db
       = (Inl RequestValidationError, example_db)
   \<and> post_api_users_projects \<lparr>path_params = [(''user_id'', 1)], query_params = [(''users_id'', 2)]\<rparr>
        \<lparr>pfb_name = Val ''Thesis'', pfb_description = Unset\<rparr> example_db
       = (Inr \<lparr>p_id = 4, p_name = ''Thesis'', p_description = None, p_owner_id = 2\<rparr>,
          example_db\<lparr>projects := projects example_db @
            [\<lparr>p_id = 4, p_name = ''Thesis'', p_description = None, p_owner_id = 2\<rparr>]\<rparr>)
   \<and> get_UserDB example_db 99 = None
   \<and> post_api_users_projects \<lparr>path_params = [(''user_id'', 99)], query_params = [(''users_id'', 2)]\<rparr>
        \<lparr>pfb_name = Val ''Thesis'', pfb_description = Unset\<rparr> example_db
       = (Inr \<lparr>p_id = 4, p_name = ''Thesis'', p_description = None, p_owner_id = 2\<rparr>,
          example_db\<lparr>projects := projects example_db @
            [\<lparr>p_id = 4, p_name = ''Thesis'', p_description = None, p_owner_id = 2\<rparr>]\<rparr>)"
proof -
  have v: "ProjectCreateForUser_validate \<lparr>pfb_name = Val ''Thesis'', pfb_description = Unset\<rparr>
             = Some \<lparr>pf_name = ''Thesis'', pf_description = None\<rparr>"
    by (simp add: ProjectCreateForUser_validate_def ProjectNameStr_def optional_ok_def
        optional_value_def)
  have u1: "get_UserDB example_db 1 \<noteq> None" and u2: "get_UserDB example_db 2 \<noteq> None"
    and u99: "get_UserDB example_db 99 = None"
    by (simp_all add: get_UserDB_def example_db_def)
  have a: "post_api_users_projects \<lparr>path_params = [(''user_id'', 1)], query_params = []\<rparr>
        \<lparr>pfb_name = Val ''Thesis'', pfb_description = Unset\<rparr> example_db
       = (Inl RequestValidationError, example_db)"
    by (simp add: post_api_users_projects_def resolve_param_def)
  have b: "post_api_users_projects \<lparr>path_params = [(''user_id'', i)], query_params = [(''users_id'', 2)]\<rparr>
        \<lparr>pfb_name = Val ''Thesis'', pfb_description = Unset\<rparr> example_db
       = (Inr \<lparr>p_id = 4, p_name = ''Thesis'', p_description = None, p_owner_id = 2\<rparr>,
          example_db\<lparr>projects := projects example_db @
            [\<lparr>p_id = 4, p_name = ''Thesis'', p_description = None, p_owner_id = 2\<rparr>]\<rparr>)" for i
    using u2
    by (simp add: post_api_users_projects_def resolve_param_def v create_user_project_handler
        next_id_example)
  show ?thesis
    using u1 u99 a b by simp
qed

section \<open>The handlers preserve the declared constraints\<close>

text \<open>
  The hypothesis \<open>db_integrity\<close> of the theorems above holds of the empty store and of
  every store the handlers produce from it, whatever they answer.
\<close>

lemma empty_db_integrity: "db_integrity empty_db"
  by (simp add: db_integrity_def empty_db_def)

lemma find_append_not_None: "find P xs \<noteq> None \<Longrightarrow> find P (xs @ ys) \<noteq> None"
  by (auto simp: find_None_iff)

lemma add_user_integrity:
  assumes "db_integrity d" "add_user payload d = (r, d')"
  shows "db_integrity d'"
proof (cases "insert_user \<lparr>u_id = 0, u_name = uc_name payload, u_email = uc_email payload,
                  u_age = uc_age payload, u_student_id = uc_student_id payload\<rparr> d")
  case None
  with assms show ?thesis by (simp add: add_user_def)
next
  case (Some a)
  let ?row = "\<lparr>u_id = next_id (map u_id (users d)), u_name = uc_name payload,
               u_email = uc_email payload, u_age = uc_age payload,
               u_student_id = uc_student_id payload\<rparr>"
  from Some have ok: "users_unique_ok d ?row" and a: "a = (?row, d\<lparr>users := users d @ [?row]\<rparr>)"
    by (auto simp: insert_user_def Let_def split: if_splits)
  from a Some assms(2) have d': "d' = d\<lparr>users := users d @ [?row]\<rparr>"
    by (simp add: add_user_def)
  have fresh: "next_id (map u_id (users d)) \<notin> u_id ` set (users d)"
    using next_id_fresh [of "map u_id (users d)"] by simp
  then have "\<forall>v\<in>set (users d). u_id v \<noteq> next_id (map u_id (users d))"
    by (metis imageI)
  with ok have e: "uc_email payload \<notin> u_email ` set (users d)"
    and s: "uc_student_id payload \<notin> u_student_id ` set (users d)"
    by (auto simp: users_unique_ok_def list_all_iff)
  have fk: "\<forall>p\<in>set (projects d). p_owner_id p \<in> u_id ` set (users d)"
    using assms(1)
    by (simp add: db_integrity_def list_all_iff projects_fk_ok_def get_UserDB_None_iff)
  show ?thesis
    using assms(1) fresh e s fk
    by (auto simp add: d' db_integrity_def list_all_iff projects_fk_ok_def get_UserDB_None_iff)
qed

lemma create_course_integrity:
  assumes "db_integrity d" "create_course course d = (r, d')"
  shows "db_integrity d'"
proof (cases "\<exists>v\<in>set (courses d). c_code v = cc_code course")
  case True
  from create_course_duplicate [OF True] assms show ?thesis by simp
next
  case False
  then have ne: "\<forall>v\<in>set (courses d). c_code v \<noteq> cc_code course" by blast
  have fresh: "next_id (map c_id (courses d)) \<notin> c_id ` set (courses d)"
    using next_id_fresh [of "map c_id (courses d)"] by simp
  from create_course_success(1) [OF ne] assms(2)
  have "d' = d\<lparr>courses := courses d @ [\<lparr>c_id = next_id (map c_id (courses d)),
                 c_code = cc_code course, c_name = cc_name course,
                 c_credits = cc_credits course\<rparr>]\<rparr>"
    by simp
  then show ?thesis
    using assms(1) fresh ne
    by (auto simp add: db_integrity_def list_all_iff projects_fk_ok_def get_UserDB_def)
qed

lemma create_user_project_integrity:
  assumes "db_integrity d" "create_user_project users_id project d = (r, d')"
  shows "db_integrity d'"
proof -
  have fresh: "next_id (map p_id (projects d)) \<notin> p_id ` set (projects d)"
    using next_id_fresh [of "map p_id (projects d)"] by simp
  show ?thesis
    using assms fresh
    by (auto simp add: create_user_project_handler db_integrity_def list_all_iff
        projects_fk_ok_def get_UserDB_def split: if_splits)
qed


lemma distinct_map_replace:
  assumes "distinct (map k xs)" "distinct (map f xs)" "\<forall>v\<in>set xs. k v = k u \<or> f v \<noteq> f u"
  shows "distinct (map f (map (\<lambda>v. if k v = k u then u else v) xs))"
  using assms
proof (induction xs)
  case Nil
  then show ?case by simp
next
  case (Cons x xs)
  then have IH: "distinct (map f (map (\<lambda>v. if k v = k u then u else v) xs))" by simp
  show ?case
  proof (cases "k x = k u")
    case True
    from Cons.prems(1) have "k x \<notin> k ` set xs" by simp
    with True have "\<forall>v\<in>set xs. k v \<noteq> k u" by (metis imageI)
    with Cons.prems(3) have "\<forall>v\<in>set xs. f v \<noteq> f u \<and> k v \<noteq> k u" by auto
    with True IH show ?thesis by auto
  next
    case False
    with Cons.prems(3) have xu: "f x \<noteq> f u" by auto
    from Cons.prems(2) have "f x \<notin> f ` set xs" by simp
    then have xs: "\<forall>v\<in>set xs. f v \<noteq> f x" by (metis imageI)
    have "f (if k v = k u then u else v) \<noteq> f x" if "v \<in> set xs" for v
      using that xu xs by (cases "k v = k u") auto
    then have nm: "f x \<notin> set (map f (map (\<lambda>v. if k v = k u then u else v) xs))"
      by (metis (no_types, lifting) imageE list.set_map)
    have "map f (map (\<lambda>v. if k v = k u then u else v) (x # xs))
            = f x # map f (map (\<lambda>v. if k v = k u then u else v) xs)"
      using False by simp
    then show ?thesis
      using nm IH by (metis distinct.simps(2))
  
  qed
qed

lemma map_key_replace:
  "k u = i \<Longrightarrow> map k (map (\<lambda>v. if k v = i then u else v) xs) = map k xs"
  by (induction xs) auto

lemma update_user_row_integrity:
  assumes "db_integrity d" "update_user_row u d = Some (row, d')"
  shows "db_integrity d'"
proof -
  let ?us = "map (\<lambda>v. if u_id v = u_id u then u else v) (users d)"
  from assms(2) have ok: "users_unique_ok d u" and d': "d' = d\<lparr>users := ?us\<rparr>"
    by (auto simp: update_user_row_def split: if_splits)
  have i: "distinct (map u_id (users d))" and e: "distinct (map u_email (users d))"
    and s: "distinct (map u_student_id (users d))"
    and fk: "\<forall>p\<in>set (projects d). p_owner_id p \<in> u_id ` set (users d)"
    using assms(1)
    by (simp_all add: db_integrity_def list_all_iff projects_fk_ok_def get_UserDB_None_iff)
  have ce: "\<forall>v\<in>set (users d). u_id v = u_id u \<or> u_email v \<noteq> u_email u"
    and cs: "\<forall>v\<in>set (users d). u_id v = u_id u \<or> u_student_id v \<noteq> u_student_id u"
    using ok by (auto simp: users_unique_ok_def list_all_iff)
  have ids: "map u_id ?us = map u_id (users d)"
    by (rule map_key_replace) simp
  have i': "distinct (map u_id ?us)" using i ids by metis
  have e': "distinct (map u_email ?us)" by (rule distinct_map_replace [OF i e ce])
  have s': "distinct (map u_student_id ?us)" by (rule distinct_map_replace [OF i s cs])
  have "u_id ` set ?us = u_id ` set (users d)"
    using ids by (metis set_map)
  with fk have fk': "\<forall>p\<in>set (projects d). p_owner_id p \<in> u_id ` set ?us" by metis
  have rest: "distinct (map p_id (projects d))" "distinct (map c_id (courses d))"
    "distinct (map c_code (courses d))"
    using assms(1) by (simp_all add: db_integrity_def)
  have "db_integrity (d\<lparr>users := ?us\<rparr>)"
    unfolding db_integrity_def list_all_iff projects_fk_ok_def get_UserDB_None_iff
    using i' e' s' fk' rest by simp
  then show ?thesis by (simp only: d')
qed

lemma patch_user_integrity:
  assumes "db_integrity d" "patch_user users_id payload d = (r, d')"
  shows "db_integrity d'"
  using assms update_user_row_integrity [OF assms(1)]
  by (auto simp: patch_user_def split: option.splits prod.splits)

lemma update_project_row_integrity:
  assumes "db_integrity d" "update_project_row p d = Some (row, d')"
  shows "db_integrity d'"
proof -
  let ?ps = "map (\<lambda>q. if p_id q = p_id p then p else q) (projects d)"
  from assms(2) have ok: "projects_fk_ok d p" and d': "d' = d\<lparr>projects := ?ps\<rparr>"
    by (auto simp: update_project_row_def split: if_splits)
  have ids: "map p_id ?ps = map p_id (projects d)"
    by (rule map_key_replace) simp
  have "distinct (map p_id (projects d))"
    using assms(1) by (simp add: db_integrity_def)
  then have i': "distinct (map p_id ?ps)" using ids by metis
  have fk: "\<forall>q\<in>set (projects d). p_owner_id q \<in> u_id ` set (users d)"
    using assms(1)
    by (simp add: db_integrity_def list_all_iff projects_fk_ok_def get_UserDB_None_iff)
  have "p_owner_id p \<in> u_id ` set (users d)"
    using ok by (simp add: projects_fk_ok_def get_UserDB_None_iff)
  with fk have fk': "\<forall>q\<in>set ?ps. p_owner_id q \<in> u_id ` set (users d)" by auto
  have rest: "distinct (map u_id (users d))" "distinct (map u_email (users d))"
    "distinct (map u_student_id (users d))" "distinct (map c_id (courses d))"
    "distinct (map c_code (courses d))"
    using assms(1) by (simp_all add: db_integrity_def)
  have "db_integrity (d\<lparr>projects := ?ps\<rparr>)"
    unfolding db_integrity_def list_all_iff projects_fk_ok_def get_UserDB_None_iff
    using i' fk' rest by simp
  then show ?thesis by (simp only: d')
qed

lemma update_project_integrity:
  assumes "db_integrity d" "update_project project_id payload d = (r, d')"
  shows "db_integrity d'"
  using assms update_project_row_integrity [OF assms(1)]
  by (auto simp: update_project_def split: option.splits prod.splits)

lemma patch_project_integrity:
  assumes "db_integrity d" "patch_project project_id payload d = (r, d')"
  shows "db_integrity d'"
  using assms update_project_row_integrity [OF assms(1)]
  by (auto simp: patch_project_def split: option.splits prod.splits)

end
